theory Spec2Isabelle
  imports Complex_Main "HOL-Library.Sublist"
begin

section \<open>JavaScript values and string primitives used by the tools\<close>

text \<open>
  Strings are character lists, and white space and letter case are those of ASCII. Numbers
  are IEEE doubles in the source; the model uses exact integers and reals for the finite ones
  (rounding errors and overflow of the doubles are not modelled) and writes the other values
  out where the source can produce them: \<open>NaN\<close> is a constructor of \<open>num\<close>, the result type
  of \<open>parseInt\<close>, and of \<open>jsreal\<close>, the type of a number that a tool computes or compares.
  The font size converter, whose results depend on the rounding of the doubles, has a model
  of its own: the type \<open>double\<close> with rounding to nearest, overflow and underflow.
\<close>

datatype num = NaN | Number int

text \<open>A computed number: a finite real, an infinity or \<open>NaN\<close>.\<close>

datatype jsreal = NaNr | PosInf | NegInf | Fin real

text \<open>\<open>a >= t\<close>, \<open>a <= t\<close> and \<open>a > t\<close> for a computed number and a threshold: every
  comparison with \<open>NaN\<close> is false.\<close>

fun js_ge :: "jsreal \<Rightarrow> real \<Rightarrow> bool" where
  "js_ge (Fin x) t = (t \<le> x)"
| "js_ge PosInf t = True"
| "js_ge NegInf t = False"
| "js_ge NaNr t = False"




text \<open>A command line option is either the flag value \<open>true\<close> or the string that followed it.\<close>

datatype optval = Flag | Str string

type_synonym options = "string \<rightharpoonup> optval"

text \<open>
  How a run of a tool ends: \<open>process.exit(code)\<close> after a message on standard error, or
  normal completion (exit code 0) after printing a result. The failures are the messages of
  the source: invalid JSON, the usage text, the unsupported \<open>hsl\<close> format, the invalid
  deficiency type, an exception that no \<open>try\<close> catches (the process ends with code 1), and
  an exception that \<open>main\<close> catches and reports before \<open>process.exit(1)\<close>.
\<close>

datatype thrown = UnknownType | NotAMatrix

datatype failure =
    InvalidJSON | Usage | HslUnsupported | InvalidType
  | Uncaught
  | Caught thrown

datatype 'a run = Exit nat failure | Printed 'a

fun exit_code :: "'a run \<Rightarrow> nat" where
  "exit_code (Exit n f) = n"
| "exit_code (Printed x) = 0"

fun computed_result :: "'a run \<Rightarrow> 'a option" where
  "computed_result (Exit n f) = None"
| "computed_result (Printed x) = Some x"

definition startsWith :: "string \<Rightarrow> string \<Rightarrow> bool" where
  "startsWith s p = (take (length p) s = p)"

definition endsWith :: "string \<Rightarrow> string \<Rightarrow> bool" where
  "endsWith s p = (length p \<le> length s \<and> drop (length s - length p) s = p)"

fun includes_str :: "string \<Rightarrow> string \<Rightarrow> bool" where
  "includes_str [] p = (p = [])"
| "includes_str (c # cs) p = (take (length p) (c # cs) = p \<or> includes_str cs p)"

definition is_ws :: "char \<Rightarrow> bool" where
  "is_ws c = (c \<in> set [CHR '' '', CHR 0x09, CHR 0x0A, CHR 0x0B, CHR 0x0C, CHR 0x0D])"

definition trim :: "string \<Rightarrow> string" where
  "trim s = rev (dropWhile is_ws (rev (dropWhile is_ws s)))"

definition toLowerCase :: "string \<Rightarrow> string" where
  "toLowerCase s =
     map (\<lambda>c. case map_of (zip ''ABCDEFGHIJKLMNOPQRSTUVWXYZ'' ''abcdefghijklmnopqrstuvwxyz'') c of
                 Some l \<Rightarrow> l | None \<Rightarrow> c) s"

fun split_on :: "char \<Rightarrow> string \<Rightarrow> string list" where
  "split_on d [] = [[]]"
| "split_on d (c # cs) =
     (if c = d then [] # split_on d cs
      else (case split_on d cs of p # ps \<Rightarrow> (c # p) # ps | [] \<Rightarrow> [[c]]))"

text \<open>The value of a digit character, 36 for a character that is no digit in any radix.\<close>

definition digit_table :: "(char \<times> nat) list" where
  "digit_table =
     zip ''0123456789abcdefghijklmnopqrstuvwxyz'' [0 ..< 36] @
     zip ''ABCDEFGHIJKLMNOPQRSTUVWXYZ'' [10 ..< 36]"

definition digit_of :: "char \<Rightarrow> nat" where
  "digit_of c = (case map_of digit_table c of Some d \<Rightarrow> d | None \<Rightarrow> 36)"

text \<open>
  \<open>parseInt(string, radix)\<close> as ECMAScript defines it: leading white space is skipped, a sign is
  read, a \<open>0x\<close> prefix selects radix 16 when the radix is absent or 16, the longest prefix of
  digits of the radix is the value, and no digit at all is \<open>NaN\<close>. The radix is \<open>None\<close> when
  the call passes none.
\<close>

definition parseInt :: "string \<Rightarrow> nat option \<Rightarrow> num" where
  "parseInt input radix =
     (let s0 = dropWhile is_ws input;
          neg = (s0 \<noteq> [] \<and> hd s0 = CHR ''-'');
          s1 = (if s0 \<noteq> [] \<and> (hd s0 = CHR ''-'' \<or> hd s0 = CHR ''+'') then tl s0 else s0);
          r0 = (case radix of None \<Rightarrow> 0 | Some r \<Rightarrow> r)
      in if r0 \<noteq> 0 \<and> (r0 < 2 \<or> 36 < r0) then NaN
         else
           let strip = (r0 = 0 \<or> r0 = 16);
               r1 = (if r0 = 0 then 10 else r0);
               hex = (strip \<and> (take 2 s1 = ''0x'' \<or> take 2 s1 = ''0X''));
               s2 = (if hex then drop 2 s1 else s1);
               r = (if hex then 16 else r1);
               z = takeWhile (\<lambda>c. digit_of c < r) s2;
               v = foldl (\<lambda>acc c. acc * int r + int (digit_of c)) 0 z
           in if z = [] then NaN else Number (if neg then - v else v))"

text \<open>Truthiness of the values the tools test with \<open>!x\<close> or \<open>if (x)\<close>.\<close>

fun truthy_opt :: "optval option \<Rightarrow> bool" where
  "truthy_opt None = False"
| "truthy_opt (Some Flag) = True"
| "truthy_opt (Some (Str s)) = (s \<noteq> [])"

fun truthy_num :: "num option \<Rightarrow> bool" where
  "truthy_num None = False"
| "truthy_num (Some NaN) = False"
| "truthy_num (Some (Number n)) = (n \<noteq> 0)"

text \<open>The string an option value is coerced to when a string function receives it.\<close>

fun to_string :: "optval \<Rightarrow> string" where
  "to_string Flag = ''true''"
| "to_string (Str s) = s"

text \<open>The argument loop shared by all tools: \<open>--key value\<close> stores the value, \<open>--key\<close>
  followed by nothing or by another \<open>--\<close> argument stores \<open>true\<close>.\<close>

fun parseArgs_loop :: "string list \<Rightarrow> options \<Rightarrow> options" where
  "parseArgs_loop [] opts = opts"
| "parseArgs_loop [arg] opts =
     (if startsWith arg ''--'' then opts(drop 2 arg \<mapsto> Flag) else opts)"
| "parseArgs_loop (arg # v # rest) opts =
     (if startsWith arg ''--''
      then (if v \<noteq> [] \<and> \<not> startsWith v ''--''
            then parseArgs_loop rest (opts(drop 2 arg \<mapsto> Str v))
            else parseArgs_loop (v # rest) (opts(drop 2 arg \<mapsto> Flag)))
      else parseArgs_loop (v # rest) opts)"

definition parseArgs :: "string list \<Rightarrow> options" where
  "parseArgs args = parseArgs_loop args Map.empty"

section \<open>Touch target size checker\<close>

definition WCAG_MINIMUM_SIZE :: int where
  "WCAG_MINIMUM_SIZE = 44"

definition RECOMMENDED_SPACING :: int where
  "RECOMMENDED_SPACING = 8"

text \<open>
  The object \<open>JSON.parse\<close> returns for the \<open>--json\<close> option, with the fields the checker
  reads; a field is \<open>None\<close> when the document does not have it. \<open>JSON.parse\<close> itself is a
  parameter of the model: it returns \<open>None\<close> when the \<open>try\<close> block throws.
\<close>

record touch_json =
  json_width :: "int option"
  json_height :: "int option"
  json_spacing :: "int option"

text \<open>\<open>a || b\<close> for a number field of the JSON document and a value parsed before.\<close>

fun or_else :: "int option \<Rightarrow> num option \<Rightarrow> num option" where
  "or_else None prev = prev"
| "or_else (Some n) prev = (if n \<noteq> 0 then Some (Number n) else prev)"

record dimensions =
  width :: num
  height :: num
  spacing :: "num option"

text \<open>The local variables \<open>width\<close> and \<open>height\<close> of \<open>parseDimensions\<close> before the JSON
  branch: \<open>--width\<close> and \<open>--height\<close>, overridden by \<open>--dimensions WxH\<close>. A \<open>--dimensions\<close>
  flag without a value is the boolean \<open>true\<close>, which has no \<open>includes\<close> method: the call
  throws outside any \<open>try\<close>.\<close>

definition explicit_width :: "options \<Rightarrow> num option" where
  "explicit_width opts =
     (if truthy_opt (opts ''width'')
      then Some (parseInt (to_string (the (opts ''width''))) None) else None)"

definition explicit_height :: "options \<Rightarrow> num option" where
  "explicit_height opts =
     (if truthy_opt (opts ''height'')
      then Some (parseInt (to_string (the (opts ''height''))) None) else None)"

definition nth_part :: "string list \<Rightarrow> nat \<Rightarrow> num" where
  "nth_part parts i = (if i < length parts then parseInt (parts ! i) None else NaN)"

definition flag_dimensions :: "options \<Rightarrow> failure + (num option \<times> num option)" where
  "flag_dimensions opts =
     (case opts ''dimensions'' of
        None \<Rightarrow> Inr (explicit_width opts, explicit_height opts)
      | Some Flag \<Rightarrow> Inl Uncaught
      | Some (Str d) \<Rightarrow>
          if d \<noteq> [] \<and> includes_str d ''x''
          then (let parts = split_on CHR ''x'' d
                in Inr (Some (nth_part parts 0), Some (nth_part parts 1)))
          else Inr (explicit_width opts, explicit_height opts))"

text \<open>The value of \<open>options.spacing\<close> when the result is built: a non-zero JSON number
  replaces the command line value, and \<open>parseInt\<close> of a number is the number.\<close>

definition spacing_of :: "options \<Rightarrow> int option \<Rightarrow> num option" where
  "spacing_of opts js =
     (case js of
        Some n \<Rightarrow>
          if n \<noteq> 0 then Some (Number n)
          else if truthy_opt (opts ''spacing'')
               then Some (parseInt (to_string (the (opts ''spacing''))) None) else None
      | None \<Rightarrow>
          if truthy_opt (opts ''spacing'')
          then Some (parseInt (to_string (the (opts ''spacing''))) None) else None)"

text \<open>The values of \<open>width\<close>, \<open>height\<close> and \<open>options.spacing\<close> when the guard before the result
  is reached, or the failure that ends the run before it.\<close>

definition parsed_dimensions ::
    "(optval \<Rightarrow> touch_json option) \<Rightarrow> options \<Rightarrow> failure + (num option \<times> num option \<times> num option)" where
  "parsed_dimensions json_parse opts =
     (case flag_dimensions opts of
        Inl f \<Rightarrow> Inl f
      | Inr (w, h) \<Rightarrow>
          if truthy_opt (opts ''json'')
          then (case json_parse (the (opts ''json'')) of
                  None \<Rightarrow> Inl InvalidJSON
                | Some j \<Rightarrow>
                    Inr (or_else (json_width j) w, or_else (json_height j) h,
                         spacing_of opts (json_spacing j)))
          else Inr (w, h, spacing_of opts None))"

fun isNaN :: "num option \<Rightarrow> bool" where
  "isNaN (Some NaN) = True"
| "isNaN v = False"

definition parseDimensions ::
    "(optval \<Rightarrow> touch_json option) \<Rightarrow> options \<Rightarrow> failure + dimensions" where
  "parseDimensions json_parse opts =
     (case parsed_dimensions json_parse opts of
        Inl f \<Rightarrow> Inl f
      | Inr (w, h, sp) \<Rightarrow>
          if \<not> truthy_num w \<or> \<not> truthy_num h \<or> isNaN w \<or> isNaN h then Inl Usage
          else Inr \<lparr>width = the w, height = the h, spacing = sp\<rparr>)"

text \<open>\<open>a >= b\<close> and \<open>a < b\<close> on numbers: every comparison with \<open>NaN\<close> is false.\<close>

fun num_ge :: "num \<Rightarrow> int \<Rightarrow> bool" where
  "num_ge NaN k = False"
| "num_ge (Number n) k = (k \<le> n)"

fun num_lt :: "num \<Rightarrow> int \<Rightarrow> bool" where
  "num_lt NaN k = False"
| "num_lt (Number n) k = (n < k)"

record size_check =
  compliant :: bool
  minimumWidth :: int
  minimumHeight :: int
  actualWidth :: num
  actualHeight :: num

definition checkSize :: "num \<Rightarrow> num \<Rightarrow> size_check" where
  "checkSize w h =
     \<lparr>compliant = (num_ge w WCAG_MINIMUM_SIZE \<and> num_ge h WCAG_MINIMUM_SIZE),
      minimumWidth = WCAG_MINIMUM_SIZE, minimumHeight = WCAG_MINIMUM_SIZE,
      actualWidth = w, actualHeight = h\<rparr>"

text \<open>The spacing result is tri-state: \<open>None\<close> is the source's \<open>null\<close> (unknown).\<close>

record spacing_check =
  spacing_compliant :: "bool option"
  recommended :: int
  actual :: "num option"

definition checkSpacing :: "num option \<Rightarrow> spacing_check" where
  "checkSpacing sp =
     (case sp of
        None \<Rightarrow> \<lparr>spacing_compliant = None, recommended = RECOMMENDED_SPACING, actual = None\<rparr>
      | Some v \<Rightarrow>
          \<lparr>spacing_compliant = Some (num_ge v RECOMMENDED_SPACING),
           recommended = RECOMMENDED_SPACING, actual = Some v\<rparr>)"

text \<open>The remediation messages, with the numbers they interpolate.\<close>

datatype recommendation =
    IncreaseWidth int num
  | IncreaseHeight int num
  | EnsureSpacing int "num option"
  | ConsiderSpacing int

definition generateRecommendations :: "size_check \<Rightarrow> spacing_check \<Rightarrow> recommendation list" where
  "generateRecommendations sizeCheck spacingCheck =
     (if \<not> compliant sizeCheck
      then (if num_lt (actualWidth sizeCheck) WCAG_MINIMUM_SIZE
            then [IncreaseWidth WCAG_MINIMUM_SIZE (actualWidth sizeCheck)] else []) @
           (if num_lt (actualHeight sizeCheck) WCAG_MINIMUM_SIZE
            then [IncreaseHeight WCAG_MINIMUM_SIZE (actualHeight sizeCheck)] else [])
      else []) @
     (if spacing_compliant spacingCheck = Some False
      then [EnsureSpacing RECOMMENDED_SPACING (actual spacingCheck)]
      else if spacing_compliant spacingCheck = None
      then [ConsiderSpacing RECOMMENDED_SPACING] else [])"

record touch_report =
  sizeCheck :: size_check
  spacingCheck :: spacing_check
  recommendations :: "recommendation list"

definition touch_main :: "(optval \<Rightarrow> touch_json option) \<Rightarrow> string list \<Rightarrow> touch_report run" where
  "touch_main json_parse args =
     (case parseDimensions json_parse (parseArgs args) of
        Inl f \<Rightarrow> Exit 1 f
      | Inr d \<Rightarrow>
          (let sc = checkSize (width d) (height d);
               pc = checkSpacing (spacing d)
           in Printed \<lparr>sizeCheck = sc, spacingCheck = pc,
                         recommendations = generateRecommendations sc pc\<rparr>))"

section \<open>Motion tester\<close>









text \<open>\<open>[...new Set(xs)]\<close>: the first occurrence of every element, in order.\<close>

fun unique :: "'a list \<Rightarrow> 'a list" where
  "unique [] = []"
| "unique (x # xs) = x # unique (filter (\<lambda>y. y \<noteq> x) xs)"




section \<open>Font size converter\<close>

subsection \<open>Doubles under multiplication and division\<close>

text \<open>
  The converter multiplies and divides doubles, and its results depend on their rounding. A
  double is a finite real, an infinity or \<open>NaN\<close>. The sign of an infinity and of a zero is
  not kept: under multiplication and division it decides the sign of a result and nothing
  else.
\<close>

datatype double = Finite real | Infinity | NotANumber

text \<open>The integer nearest to a real, a tie going to the even one.\<close>

definition round_even :: "real \<Rightarrow> int" where
  "round_even y =
     (let f = \<lfloor>y\<rfloor>; d = y - of_int f
      in if d < 1 / 2 then f else if 1 / 2 < d then f + 1 else if even f then f else f + 1)"

text \<open>
  The exponent of the last bit of the double nearest to \<open>x\<close>: 52 below the exponent of \<open>x\<close>
  for a normal number, and -1074 for every subnormal one.
\<close>

definition ulp_exponent :: "real \<Rightarrow> int" where
  "ulp_exponent x = max (\<lfloor>log 2 \<bar>x\<bar>\<rfloor> - 52) (- 1074)"

text \<open>
  The result of an arithmetic operation whose exact value is \<open>x\<close>: the multiple of the last
  bit that is nearest to \<open>x\<close> (ties to even), and an infinity when that multiple reaches
  \<open>2 ^ 1024\<close>. A small \<open>x\<close> underflows to a subnormal number or to 0.
\<close>

definition to_double :: "real \<Rightarrow> double" where
  "to_double x =
     (if x = 0 then Finite 0
      else (let e = ulp_exponent x;
                y = of_int (round_even (x / 2 powr of_int e)) * 2 powr of_int e
            in if 2 powr 1024 \<le> \<bar>y\<bar> then Infinity else Finite y))"

text \<open>\<open>a * b\<close> and \<open>a / b\<close> on doubles.\<close>

fun double_times :: "double \<Rightarrow> double \<Rightarrow> double" where
  "double_times (Finite x) (Finite y) = to_double (x * y)"
| "double_times (Finite x) Infinity = (if x = 0 then NotANumber else Infinity)"
| "double_times Infinity (Finite y) = (if y = 0 then NotANumber else Infinity)"
| "double_times Infinity Infinity = Infinity"
| "double_times NotANumber y = NotANumber"
| "double_times x NotANumber = NotANumber"

fun double_divide :: "double \<Rightarrow> double \<Rightarrow> double" where
  "double_divide (Finite x) (Finite y) =
     (if y = 0 then (if x = 0 then NotANumber else Infinity) else to_double (x / y))"
| "double_divide (Finite x) Infinity = Finite 0"
| "double_divide Infinity (Finite y) = Infinity"
| "double_divide Infinity Infinity = NotANumber"
| "double_divide NotANumber y = NotANumber"
| "double_divide x NotANumber = NotANumber"

subsection \<open>The conversion\<close>

definition DEFAULT_BASE_FONT :: real where
  "DEFAULT_BASE_FONT = 16"

text \<open>The constant \<open>1.333\<close> of the source is the double nearest to 1333/1000.\<close>

definition PT_TO_PX_RATIO :: real where
  "PT_TO_PX_RATIO = 6003298303284871 / 4503599627370496"

record font_size =
  fs_value :: double
  unit :: string

definition toPixels :: "double \<Rightarrow> string \<Rightarrow> double \<Rightarrow> double" where
  "toPixels v u baseFontSize =
     (if u = ''px'' then v
      else if u = ''pt'' then double_times v (Finite PT_TO_PX_RATIO)
      else if u = ''em'' \<or> u = ''rem'' then double_times v baseFontSize
      else v)"

definition fromPixels :: "double \<Rightarrow> string \<Rightarrow> double \<Rightarrow> double" where
  "fromPixels pxValue targetUnit baseFontSize =
     (if targetUnit = ''px'' then pxValue
      else if targetUnit = ''pt'' then double_divide pxValue (Finite PT_TO_PX_RATIO)
      else if targetUnit = ''em'' \<or> targetUnit = ''rem'' then double_divide pxValue baseFontSize
      else pxValue)"

record conversion =
  inputValue :: double
  inputUnit :: string
  outputValue :: double
  outputUnit :: string
  pxValue :: double
  baseFontSize :: double

definition performConversion :: "font_size \<Rightarrow> string \<Rightarrow> double \<Rightarrow> conversion" where
  "performConversion input targetUnit base =
     (let px = toPixels (fs_value input) (unit input) base
      in \<lparr>inputValue = fs_value input, inputUnit = unit input,
          outputValue = fromPixels px targetUnit base, outputUnit = targetUnit,
          pxValue = px, baseFontSize = base\<rparr>)"

text \<open>Converting to a target unit and converting the result back to the source unit, with
  the same base font size: two runs of \<open>performConversion\<close>.\<close>

definition convert_and_back :: "double \<Rightarrow> string \<Rightarrow> string \<Rightarrow> double \<Rightarrow> double" where
  "convert_and_back v u t base =
     outputValue (performConversion
       \<lparr>fs_value = outputValue (performConversion \<lparr>fs_value = v, unit = u\<rparr> t base), unit = t\<rparr>
       u base)"

text \<open>
  For the statement of the round trip: the exact number of pixels in one unit (0 when the
  unit is em or rem and the base font size is no finite number; 1 for px and for every
  string that is no unit, which the source leaves unconverted), and the exact results that
  are rounded to a normal double with a relative error of at most \<open>2 powr (- 53)\<close>: 0, and
  the magnitudes from the smallest normal double to the largest double, each with a relative
  margin of \<open>2 powr (- 50)\<close> for the errors of the operations before.
\<close>

definition unit_factor :: "string \<Rightarrow> double \<Rightarrow> real" where
  "unit_factor u base =
     (if u = ''pt'' then PT_TO_PX_RATIO
      else if u = ''em'' \<or> u = ''rem'' then (case base of Finite b \<Rightarrow> b | _ \<Rightarrow> 0)
      else 1)"

definition in_normal_range :: "real \<Rightarrow> bool" where
  "in_normal_range x =
     (2 powr (- 1022) * (1 + 2 powr (- 50)) \<le> \<bar>x\<bar> \<and> \<bar>x\<bar> \<le> 2 powr 1024 * (1 - 2 powr (- 50)))"

definition rounds_well :: "real \<Rightarrow> bool" where
  "rounds_well x = (x = 0 \<or> in_normal_range x)"

section \<open>Focus order validator\<close>

fun getElementType :: "string \<Rightarrow> string" where
  "getElementType element =
     (let el = toLowerCase element
      in if includes_str el ''header'' \<or> includes_str el ''h1'' \<or> includes_str el ''logo''
         then ''header''
         else if includes_str el ''nav'' \<or> includes_str el ''menu'' \<or> includes_str el ''navigation''
         then ''nav''
         else if includes_str el ''main'' \<or> includes_str el ''content'' \<or> includes_str el ''article''
         then ''main''
         else if includes_str el ''button'' \<or> includes_str el ''btn'' \<or> includes_str el ''submit''
         then ''button''
         else if includes_str el ''input'' \<or> includes_str el ''form'' \<or> includes_str el ''field''
         then ''input''
         else if includes_str el ''footer'' \<or> includes_str el ''bottom''
         then ''footer''
         else if includes_str el ''link'' \<or> includes_str el ''a href''
         then ''link''
         else ''other'')"

text \<open>\<open>xs.indexOf(x)\<close>, with \<open>None\<close> for \<open>-1\<close>.\<close>

fun indexOf :: "'a list \<Rightarrow> 'a \<Rightarrow> nat option" where
  "indexOf [] x = None"
| "indexOf (y # ys) x = (if y = x then Some 0 else map_option Suc (indexOf ys x))"

text \<open>\<open>tabOrder[i]\<close>: an index past the end reads \<open>undefined\<close>, which the comparisons
  below treat as \<open>NaN\<close>.\<close>

definition at_index :: "num list \<Rightarrow> nat \<Rightarrow> num" where
  "at_index xs i = (if i < length xs then xs ! i else NaN)"

fun num_greater :: "num \<Rightarrow> num \<Rightarrow> bool" where
  "num_greater (Number a) (Number b) = (b < a)"
| "num_greater x y = False"

record validation =
  logical :: bool
  complete :: bool
  focus_issues :: "string list"
  focus_recommendations :: "string list"

definition duplicate_issue :: string where
  "duplicate_issue = ''Duplicate tab indices detected - may cause focus traps''"

text \<open>The four checks of \<open>validateLogicalOrder\<close>, each the condition of one \<open>if\<close> of the
  source. The expected order is compared through \<open>JSON.stringify\<close>, which is equality of the
  two lists. \<open>new Set(tabOrder)\<close> keeps one copy of every value (\<open>NaN\<close> included), so its size
  is the length of the list without repetitions.\<close>

definition order_mismatch :: "num list \<Rightarrow> num list option \<Rightarrow> bool" where
  "order_mismatch tabOrder expectedOrder =
     (case expectedOrder of None \<Rightarrow> False | Some e \<Rightarrow> tabOrder \<noteq> e)"

definition header_after_main :: "string list \<Rightarrow> num list \<Rightarrow> bool" where
  "header_after_main elementTypes tabOrder =
     (case (indexOf elementTypes ''header'', indexOf elementTypes ''main'') of
        (Some h, Some m) \<Rightarrow> num_greater (at_index tabOrder h) (at_index tabOrder m)
      | _ \<Rightarrow> False)"

definition footer_before_main :: "string list \<Rightarrow> num list \<Rightarrow> bool" where
  "footer_before_main elementTypes tabOrder =
     (case (indexOf elementTypes ''footer'', indexOf elementTypes ''main'') of
        (Some f, Some m) \<Rightarrow> num_greater (at_index tabOrder m) (at_index tabOrder f)
      | _ \<Rightarrow> False)"

definition repeated_indices :: "num list \<Rightarrow> bool" where
  "repeated_indices tabOrder = (length (remdups tabOrder) \<noteq> length tabOrder)"

definition validateLogicalOrder ::
    "string list \<Rightarrow> num list \<Rightarrow> num list option \<Rightarrow> validation" where
  "validateLogicalOrder elements tabOrder expectedOrder =
     (let elementTypes = map (\<lambda>el. getElementType (toLowerCase el)) elements;
          navigationElements = length (filter (\<lambda>t. t = ''nav'') elementTypes);
          found =
            (if order_mismatch tabOrder expectedOrder
             then [''Tab order does not match expected logical sequence''] else []) @
            (if header_after_main elementTypes tabOrder
             then [''Header appears after main content in tab order''] else []) @
            (if footer_before_main elementTypes tabOrder
             then [''Footer appears before main content in tab order''] else []) @
            (if repeated_indices tabOrder then [duplicate_issue] else []);
          recs =
            (if order_mismatch tabOrder expectedOrder
             then [''Adjust tab order to match expected reading sequence''] else []) @
            (if header_after_main elementTypes tabOrder
             then [''Move header/navigation before main content''] else []) @
            (if footer_before_main elementTypes tabOrder
             then [''Move main content before footer''] else []) @
            (if repeated_indices tabOrder
             then [''Ensure each interactive element has a unique tab index''] else []) @
            (if navigationElements > 1
             then [''Consider providing skip links for multiple navigation sections'']
             else [])
      in \<lparr>logical = (found = []), complete = (length elements = length tabOrder),
          focus_issues = found, focus_recommendations = recs\<rparr>)"

section \<open>Skill metadata aggregator\<close>

record skill =
  name :: string
  description :: string
  directory :: string

record config_entry =
  entry_description :: string
  entry_directory :: string
  category :: string

definition toolSuffixes :: "string list" where
  "toolSuffixes = [''-focus'', ''-test'', ''-size'', ''-contrast'', ''-blindness'', ''-target-size'']"

definition isTool :: "string \<Rightarrow> bool" where
  "isTool n = list_ex (\<lambda>suffix. endsWith n suffix) toolSuffixes"

text \<open>One step of the \<open>reduce\<close> in \<open>generateSkillsConfig\<close>: the category is chosen by the
  \<open>if\<close> chain (\<open>category_for\<close>) and the entry is stored under the skill's name, replacing
  an earlier entry of that name.\<close>

definition category_for :: "string \<Rightarrow> string" where
  "category_for skill_name =
     (if isTool skill_name then ''tools''
      else if includes_str skill_name ''-deep'' then ''deep''
      else if startsWith skill_name ''wcag-'' then ''router''
      else ''other'')"

definition add_skill :: "(string \<rightharpoonup> config_entry) \<Rightarrow> skill \<Rightarrow> (string \<rightharpoonup> config_entry)" where
  "add_skill acc s =
     acc(name s \<mapsto>
       \<lparr>entry_description = description s, entry_directory = directory s,
        category = category_for (name s)\<rparr>)"

record skills_config =
  version :: string
  lastUpdated :: string
  repository :: string
  totalSkills :: nat
  skills :: "string \<rightharpoonup> config_entry"

text \<open>The configuration object that is written to the JSON file; the time stamp is read from
  the clock and is a parameter here.\<close>

definition generateSkillsConfig :: "string \<Rightarrow> skill list \<Rightarrow> skills_config" where
  "generateSkillsConfig now sks =
     \<lparr>version = ''1.0.0'', lastUpdated = now, repository = ''agent-skills-wcag'',
      totalSkills = length sks, skills = foldl add_skill Map.empty sks\<rparr>"

text \<open>Four skills, one for each branch of the category choice; the first three are names
  of skills of the repository.\<close>

definition example_skills :: "skill list" where
  "example_skills =
     [\<lparr>name = ''wcag-audit-perceivable-color-contrast'', description = ''contrast'',
        directory = ''contrast''\<rparr>,
      \<lparr>name = ''wcag-audit-operable-motion-deep'', description = ''motion'',
        directory = ''motion''\<rparr>,
      \<lparr>name = ''wcag-audit-perceivable-color'', description = ''color'',
        directory = ''color''\<rparr>,
      \<lparr>name = ''helper'', description = ''helper'', directory = ''helper''\<rparr>]"

section \<open>Colours: parsing, contrast ratio and colour blindness simulation\<close>

text \<open>The quotient of two finite numbers, without the rounding of the doubles.\<close>

definition js_div :: "real \<Rightarrow> real \<Rightarrow> jsreal" where
  "js_div x y =
     (if y \<noteq> 0 then Fin (x / y)
      else if x = 0 then NaNr else if 0 < x then PosInf else NegInf)"

text \<open>\<open>Math.round(x)\<close> is the integer nearest to \<open>x\<close>, a tie going up.\<close>

definition js_round :: "real \<Rightarrow> int" where
  "js_round x = \<lfloor>x + 1 / 2\<rfloor>"

text \<open>\<open>Math.round(ratio * 100) / 100\<close>.\<close>

fun round2 :: "jsreal \<Rightarrow> jsreal" where
  "round2 (Fin x) = Fin (of_int (js_round (x * 100)) / 100)"
| "round2 v = v"

record color =
  r :: num
  g :: num
  b :: num

text \<open>The colours of the data model: every channel is an integer from 0 to 255.\<close>

fun valid_channel :: "num \<Rightarrow> bool" where
  "valid_channel NaN = False"
| "valid_channel (Number n) = (0 \<le> n \<and> n \<le> 255)"

definition valid_color :: "color \<Rightarrow> bool" where
  "valid_color c = (valid_channel (r c) \<and> valid_channel (g c) \<and> valid_channel (b c))"

text \<open>
  The hexadecimal and \<open>rgb(...)\<close> branches, which both tools share, on the trimmed string in
  lower case. The channels are what \<open>parseInt\<close> returns: the branches test the shape of the
  string only, never the channels.
\<close>

definition hex_or_rgb :: "string \<Rightarrow> color option" where
  "hex_or_rgb c =
     (let hex = drop 1 c
      in if startsWith c ''#'' \<and> length hex = 3
         then Some \<lparr>r = parseInt [hex ! 0, hex ! 0] (Some 16),
                     g = parseInt [hex ! 1, hex ! 1] (Some 16),
                     b = parseInt [hex ! 2, hex ! 2] (Some 16)\<rparr>
         else if startsWith c ''#'' \<and> length hex = 6
         then Some \<lparr>r = parseInt (take 2 hex) (Some 16),
                     g = parseInt (take 2 (drop 2 hex)) (Some 16),
                     b = parseInt (take 2 (drop 4 hex)) (Some 16)\<rparr>
         else if startsWith c ''rgb('' \<and> endsWith c '')''
         then (let values = map (\<lambda>v. parseInt (trim v) None)
                              (split_on CHR '','' (drop 4 (butlast c)))
               in if length values = 3
                  then Some \<lparr>r = values ! 0, g = values ! 1, b = values ! 2\<rparr>
                  else None)
         else None)"

text \<open>\<open>parseColor\<close> of the contrast calculator: \<open>Inr None\<close> is the source's \<open>null\<close>, and
  \<open>hsl(...)\<close> ends the process inside the function.\<close>

definition parseColor :: "string \<Rightarrow> failure + color option" where
  "parseColor s =
     (if s = [] then Inr None
      else (let c = toLowerCase (trim s)
            in case hex_or_rgb c of
                 Some col \<Rightarrow> Inr (Some col)
               | None \<Rightarrow>
                   if startsWith c ''hsl('' \<and> endsWith c '')'' then Inl HslUnsupported
                   else Inr None))"

text \<open>\<open>parseColor\<close> of the colour blindness simulator, which has no \<open>hsl\<close> branch.\<close>

definition parseColor_sim :: "string \<Rightarrow> color option" where
  "parseColor_sim s = (if s = [] then None else hex_or_rgb (toLowerCase (trim s)))"

subsection \<open>Contrast ratio calculator\<close>

definition toLinear :: "real \<Rightarrow> real" where
  "toLinear v0 =
     (let v = v0 / 255
      in if v \<le> 0.03928 then v / 12.92 else ((v + 0.055) / 1.055) powr 2.4)"

definition getRelativeLuminance :: "color \<Rightarrow> jsreal" where
  "getRelativeLuminance c =
     (case (r c, g c, b c) of
        (Number x, Number y, Number z) \<Rightarrow>
          Fin (0.2126 * toLinear (of_int x) + 0.7152 * toLinear (of_int y)
               + 0.0722 * toLinear (of_int z))
      | _ \<Rightarrow> NaNr)"

definition getContrastRatio :: "color \<Rightarrow> color \<Rightarrow> jsreal" where
  "getContrastRatio color1 color2 =
     (case (getRelativeLuminance color1, getRelativeLuminance color2) of
        (Fin lum1, Fin lum2) \<Rightarrow>
          (let lighter = max lum1 lum2; darker = min lum1 lum2
           in js_div (lighter + 0.05) (darker + 0.05))
      | _ \<Rightarrow> NaNr)"

text \<open>The result object has one shape for non-text contrast (AA, AAA) and another for text
  (AA normal, AA large, AAA normal, AAA large).\<close>

datatype compliance_levels =
    NonText bool bool
  | TextLevels bool bool bool bool

definition checkCompliance :: "jsreal \<Rightarrow> string \<Rightarrow> compliance_levels" where
  "checkCompliance ratio type =
     (let roundedRatio = round2 ratio
      in if type = ''non-text''
         then NonText (js_ge roundedRatio 3.0) (js_ge roundedRatio 3.0)
         else TextLevels (js_ge roundedRatio 4.5) (js_ge roundedRatio 3.0)
                (js_ge roundedRatio 7.0) (js_ge roundedRatio 4.5))"

record contrast_json =
  json_foreground :: "string option"
  json_background :: "string option"
  json_type :: "string option"

record contrast_report =
  contrastRatio :: jsreal
  levels :: compliance_levels
  foreground :: color
  background :: color

text \<open>\<open>a || b\<close> on option values.\<close>

definition or_opt :: "optval option \<Rightarrow> optval option \<Rightarrow> optval option" where
  "or_opt a c = (if truthy_opt a then a else c)"

text \<open>A call of \<open>parseColor\<close> from \<open>main\<close>: a missing argument is \<open>null\<close>, and the flag value
  \<open>true\<close> has no \<open>trim\<close> method, so the call throws outside any \<open>try\<close>.\<close>

fun parseColor_arg :: "optval option \<Rightarrow> failure + color option" where
  "parseColor_arg None = Inr None"
| "parseColor_arg (Some Flag) = Inl Uncaught"
| "parseColor_arg (Some (Str s)) = parseColor s"

text \<open>The options after the JSON branch of the contrast calculator's \<open>main\<close>.\<close>

definition contrast_options ::
    "(optval \<Rightarrow> contrast_json option) \<Rightarrow> options \<Rightarrow> failure + options" where
  "contrast_options json_parse opts =
     (if truthy_opt (opts ''json'')
      then (case json_parse (the (opts ''json'')) of
              None \<Rightarrow> Inl InvalidJSON
            | Some j \<Rightarrow>
                Inr (opts(''foreground'' := map_option Str (json_foreground j),
                          ''background'' := map_option Str (json_background j),
                          ''type'' \<mapsto> Str (case json_type j of
                                               None \<Rightarrow> ''text''
                                             | Some t \<Rightarrow> if t = [] then ''text'' else t))))
      else Inr opts)"

definition contrast_main ::
    "(optval \<Rightarrow> contrast_json option) \<Rightarrow> string list \<Rightarrow> contrast_report run" where
  "contrast_main json_parse args =
     (case contrast_options json_parse (parseArgs args) of
        Inl f \<Rightarrow> Exit 1 f
      | Inr opts \<Rightarrow>
         (case parseColor_arg (or_opt (opts ''foreground'') (opts ''fg'')) of
            Inl f \<Rightarrow> Exit 1 f
          | Inr fgColor \<Rightarrow>
             (case parseColor_arg (or_opt (opts ''background'') (opts ''bg'')) of
                Inl f \<Rightarrow> Exit 1 f
              | Inr bgColor \<Rightarrow>
                 (case (fgColor, bgColor) of
                    (Some fg, Some bg) \<Rightarrow>
                      (let type = (if truthy_opt (opts ''type'')
                                   then to_string (the (opts ''type'')) else ''text'');
                           ratio = getContrastRatio fg bg
                       in Printed \<lparr>contrastRatio = round2 ratio,
                                     levels = checkCompliance ratio type,
                                     foreground = fg, background = bg\<rparr>)
                  | _ \<Rightarrow> Exit 1 Usage))))"

subsection \<open>Colour blindness simulator\<close>

type_synonym matrix = "real list list"

text \<open>
  \<open>TRANSFORMATION_MATRICES[type]\<close> is a property read on an object literal: one of the three
  matrices for its own keys, a member of \<open>Object.prototype\<close> (a value that is truthy and no
  matrix) for an inherited name, and \<open>undefined\<close> for every other string.
\<close>

datatype lookup = Undefined | Inherited | Matrix matrix

definition inherited_names :: "string list" where
  "inherited_names =
     [''constructor'', ''toString'', ''toLocaleString'', ''valueOf'', ''hasOwnProperty'',
      ''isPrototypeOf'', ''propertyIsEnumerable'', ''__proto__'', ''__defineGetter__'',
      ''__defineSetter__'', ''__lookupGetter__'', ''__lookupSetter__'']"

definition TRANSFORMATION_MATRICES :: "string \<Rightarrow> lookup" where
  "TRANSFORMATION_MATRICES type =
     (if type = ''protanopia''
      then Matrix [[0.567, 0.433, 0.000], [0.558, 0.442, 0.000], [0.000, 0.242, 0.758]]
      else if type = ''deuteranopia''
      then Matrix [[0.625, 0.375, 0.000], [0.700, 0.300, 0.000], [0.000, 0.300, 0.700]]
      else if type = ''tritanopia''
      then Matrix [[0.950, 0.050, 0.000], [0.000, 0.433, 0.567], [0.000, 0.475, 0.525]]
      else if type \<in> set inherited_names then Inherited
      else Undefined)"

definition rgbToLms :: "real \<Rightarrow> real \<Rightarrow> real \<Rightarrow> real \<times> real \<times> real" where
  "rgbToLms r0 g0 b0 =
     (let rNorm = r0 / 255; gNorm = g0 / 255; bNorm = b0 / 255
      in (17.8824 * rNorm + 43.5161 * gNorm + 4.11935 * bNorm,
          3.45565 * rNorm + 27.1554 * gNorm + 3.86714 * bNorm,
          0.0299566 * rNorm + 0.184309 * gNorm + 1.46709 * bNorm))"

definition clamp01 :: "real \<Rightarrow> real" where
  "clamp01 x = max 0 (min 1 x)"

text \<open>The three channels of \<open>lmsToRgb\<close> before they are clamped, and the function itself.\<close>

definition lmsToLinearRgb :: "real \<Rightarrow> real \<Rightarrow> real \<Rightarrow> real \<times> real \<times> real" where
  "lmsToLinearRgb L M S =
     (0.0809444479 * L + (- 0.130504409) * M + 0.116721066 * S,
      (- 0.0102485335) * L + 0.0540193266 * M + (- 0.113614708) * S,
      (- 0.000365296938) * L + (- 0.00412161469) * M + 0.693511405 * S)"

definition lmsToRgb :: "real \<Rightarrow> real \<Rightarrow> real \<Rightarrow> color" where
  "lmsToRgb L M S =
     (case lmsToLinearRgb L M S of
        (r0, g0, b0) \<Rightarrow>
          \<lparr>r = Number (js_round (clamp01 r0 * 255)),
           g = Number (js_round (clamp01 g0 * 255)),
           b = Number (js_round (clamp01 b0 * 255))\<rparr>)"

text \<open>The product of the deficiency matrix with the LMS triple.\<close>

definition applyMatrix :: "matrix \<Rightarrow> real \<times> real \<times> real \<Rightarrow> real \<times> real \<times> real" where
  "applyMatrix m lms =
     (case lms of
        (L, M, S) \<Rightarrow>
          (m ! 0 ! 0 * L + m ! 0 ! 1 * M + m ! 0 ! 2 * S,
           m ! 1 ! 0 * L + m ! 1 ! 1 * M + m ! 1 ! 2 * S,
           m ! 2 ! 0 * L + m ! 2 ! 1 * M + m ! 2 ! 2 * S))"

text \<open>
  An unknown type throws the function's own error; an inherited name passes the test and
  throws a \<open>TypeError\<close> at \<open>matrix[0][0]\<close>. A \<open>NaN\<close> channel makes every intermediate value
  \<open>NaN\<close>, which clamping and rounding leave as it is. The arithmetic is exact: on the
  colours of the data model (channels from 0 to 255) the doubles of the source round to the
  same channels, and a channel beyond the range of the doubles is outside this model.
\<close>

definition simulateColorBlindness :: "color \<Rightarrow> string \<Rightarrow> thrown + color" where
  "simulateColorBlindness c type =
     (case TRANSFORMATION_MATRICES type of
        Undefined \<Rightarrow> Inl UnknownType
      | Inherited \<Rightarrow> Inl NotAMatrix
      | Matrix m \<Rightarrow>
          (case (r c, g c, b c) of
             (Number x, Number y, Number z) \<Rightarrow>
               (case applyMatrix m (rgbToLms (of_int x) (of_int y) (of_int z)) of
                  (newL, newM, newS) \<Rightarrow> Inr (lmsToRgb newL newM newS))
           | _ \<Rightarrow> Inr \<lparr>r = NaN, g = NaN, b = NaN\<rparr>))"

record sim_json =
  json_color :: "string option"
  json_sim_type :: "string option"

record sim_report =
  original :: color
  simulated :: color
  sim_type :: string

definition sim_options :: "(optval \<Rightarrow> sim_json option) \<Rightarrow> options \<Rightarrow> failure + options" where
  "sim_options json_parse opts =
     (if truthy_opt (opts ''json'')
      then (case json_parse (the (opts ''json'')) of
              None \<Rightarrow> Inl InvalidJSON
            | Some j \<Rightarrow>
                Inr (opts(''color'' := map_option Str (json_color j),
                          ''type'' := map_option Str (json_sim_type j))))
      else Inr opts)"

fun parseColor_sim_arg :: "optval option \<Rightarrow> failure + color option" where
  "parseColor_sim_arg None = Inr None"
| "parseColor_sim_arg (Some Flag) = Inl Uncaught"
| "parseColor_sim_arg (Some (Str s)) = Inr (parseColor_sim s)"

definition sim_main :: "(optval \<Rightarrow> sim_json option) \<Rightarrow> string list \<Rightarrow> sim_report run" where
  "sim_main json_parse args =
     (case sim_options json_parse (parseArgs args) of
        Inl f \<Rightarrow> Exit 1 f
      | Inr opts \<Rightarrow>
         (case parseColor_sim_arg (opts ''color'') of
            Inl f \<Rightarrow> Exit 1 f
          | Inr None \<Rightarrow> Exit 1 Usage
          | Inr (Some c) \<Rightarrow>
              if \<not> truthy_opt (opts ''type'') then Exit 1 InvalidType
              else (let type = to_string (the (opts ''type''))
                    in if TRANSFORMATION_MATRICES type = Undefined then Exit 1 InvalidType
                       else (case simulateColorBlindness c type of
                               Inl e \<Rightarrow> Exit 1 (Caught e)
                             | Inr sc \<Rightarrow>
                                 Printed \<lparr>original = c, simulated = sc, sim_type = type\<rparr>))))"

section \<open>The string primitives and the library's prefix, suffix and sublist\<close>

text \<open>\<open>startsWith\<close>, \<open>endsWith\<close> and \<open>includes\<close> are the prefix, suffix and contiguous sublist
  relations.\<close>

lemma startsWith_prefix: "startsWith s p = prefix p s"
  unfolding startsWith_def
  by (metis append_eq_conv_conj prefix_def take_is_prefix)

lemma endsWith_suffix: "endsWith s p = suffix p s"
proof
  assume "endsWith s p"
  then have "s = take (length s - length p) s @ p"
    unfolding endsWith_def by (metis append_take_drop_id)
  then show "suffix p s" unfolding suffix_def by blast
next
  assume "suffix p s"
  then obtain q where "s = q @ p" unfolding suffix_def by blast
  then show "endsWith s p" unfolding endsWith_def by simp
qed

lemma includes_str_sublist: "includes_str s p = sublist p s"
proof (induction s)
  case Nil
  show ?case by auto
next
  case (Cons c cs)
  have "take (length p) (c # cs) = p \<longleftrightarrow> prefix p (c # cs)"
    using startsWith_prefix [of "c # cs" p] by (simp add: startsWith_def)
  with Cons show ?case by (simp add: sublist_Cons_right)
qed

section \<open>Properties of the touch target checker\<close>

text \<open>
  Claim C6. The size check reports compliant exactly when width and height are both numbers
  of at least 44, and the spacing check of an absent spacing (\<open>null\<close>) reports the third
  value unknown (\<open>null\<close>, here \<open>None\<close>) instead of a boolean; the spacing is absent when
  neither the command line nor the JSON document gives one.
\<close>

theorem touch_size_and_spacing_compliance:
  "compliant (checkSize w h) = (\<exists>a b. w = Number a \<and> h = Number b \<and> 44 \<le> a \<and> 44 \<le> b)
   \<and> spacing_compliant (checkSpacing None) = None
   \<and> spacing_of (opts(''spacing'' := None)) None = None"
proof -
  have "compliant (checkSize w h) = (\<exists>a b. w = Number a \<and> h = Number b \<and> 44 \<le> a \<and> 44 \<le> b)"
    by (cases w; cases h) (simp_all add: checkSize_def WCAG_MINIMUM_SIZE_def)
  moreover have "spacing_compliant (checkSpacing None) = None"
    by (simp add: checkSpacing_def)
  moreover have "spacing_of (opts(''spacing'' := None)) None = None"
    by (simp add: spacing_of_def)
  ultimately show ?thesis by simp
qed

text \<open>44 by 43 fails, 44 by 44 passes, and the run \<open>--width 44 --height 44\<close> has no spacing.\<close>

theorem touch_size_and_spacing_compliance_witness:
  "\<not> compliant (checkSize (Number 44) (Number 43))
   \<and> compliant (checkSize (Number 44) (Number 44))
   \<and> spacing_compliant (checkSpacing (spacing_of (parseArgs [''--width'', ''44'', ''--height'', ''44'']) None)) = None"
proof -
  have s: "parseArgs [''--width'', ''44'', ''--height'', ''44''] ''spacing'' = None" by code_simp
  have "spacing_of (parseArgs [''--width'', ''44'', ''--height'', ''44'']) None = None"
    using touch_size_and_spacing_compliance
      [of "Number 44" "Number 44" "parseArgs [''--width'', ''44'', ''--height'', ''44'']"] s
    by (simp add: fun_upd_idem)
  then show ?thesis
    using touch_size_and_spacing_compliance [of "Number 44" "Number 43" Map.empty]
      touch_size_and_spacing_compliance [of "Number 44" "Number 44" Map.empty]
    by simp
qed

text \<open>The guard \<open>!v || isNaN(v)\<close> holds for exactly three values: missing, \<open>NaN\<close> and 0.\<close>

lemma falsy_num_cases:
  "(\<not> truthy_num w \<or> isNaN w) = (w = None \<or> w = Some NaN \<or> w = Some (Number 0))"
  by (cases w rule: truthy_num.cases) simp_all

text \<open>
  Claim C10. When the guard of \<open>parseDimensions\<close> is reached with a width or a height that is
  missing, not a number or 0, the run ends with exit code 1 and the usage message, and no
  compliance result is computed: a zero dimension is handled like a missing one.
\<close>

theorem zero_or_missing_dimension_exits:
  assumes parsed: "parsed_dimensions json_parse (parseArgs args) = Inr (w, h, sp)"
    and bad: "w = None \<or> w = Some NaN \<or> w = Some (Number 0)
              \<or> h = None \<or> h = Some NaN \<or> h = Some (Number 0)"
  shows "touch_main json_parse args = Exit 1 Usage
         \<and> computed_result (touch_main json_parse args) = None"
proof -
  from bad have "\<not> truthy_num w \<or> \<not> truthy_num h \<or> isNaN w \<or> isNaN h"
    using falsy_num_cases [of w] falsy_num_cases [of h] by blast
  with parsed have "parseDimensions json_parse (parseArgs args) = Inl Usage"
    by (simp add: parseDimensions_def)
  then show ?thesis by (simp add: touch_main_def)
qed

text \<open>The run \<open>--width 0 --height 48\<close> reaches the guard with width 0.\<close>

theorem zero_or_missing_dimension_exits_witness:
  "parsed_dimensions (\<lambda>j. None) (parseArgs [''--width'', ''0'', ''--height'', ''48''])
     = Inr (Some (Number 0), Some (Number 48), None)
   \<and> touch_main (\<lambda>j. None) [''--width'', ''0'', ''--height'', ''48''] = Exit 1 Usage"
proof -
  have p: "parsed_dimensions (\<lambda>j. None) (parseArgs [''--width'', ''0'', ''--height'', ''48''])
     = Inr (Some (Number 0), Some (Number 48), None)"
    by code_simp
  from zero_or_missing_dimension_exits [OF p] show ?thesis using p by simp
qed

section \<open>Properties of the motion tester\<close>




section \<open>Properties of the font size converter\<close>

text \<open>Powers of 2 with large exponents stay as they are written.\<close>

lemmas no_pow = powr_numeral numeral_powr_numeral_real

text \<open>The round trip is the composition of the four steps.\<close>

lemma convert_and_back_eq:
  "convert_and_back v u t base
     = fromPixels (toPixels (fromPixels (toPixels v u base) t base) t base) u base"
  by (simp add: convert_and_back_def performConversion_def Let_def)

subsection \<open>Rounding to a double\<close>

text \<open>Rounding to the nearest integer is off by at most 1/2 and keeps integer bounds.\<close>

lemma round_even_error: "\<bar>of_int (round_even y) - y\<bar> \<le> 1 / 2"
proof -
  have "of_int \<lfloor>y\<rfloor> \<le> y" "y < of_int \<lfloor>y\<rfloor> + 1" by linarith+
  then show ?thesis
    by (auto simp add: round_even_def Let_def abs_le_iff)
qed

lemma round_even_mono_upper: "y \<le> of_int n \<Longrightarrow> round_even y \<le> n"
proof -
  assume a: "y \<le> of_int n"
  have e: "\<bar>of_int (round_even y) - y\<bar> \<le> 1 / 2" by (rule round_even_error)
  then have "of_int (round_even y) \<le> y + 1 / 2" by linarith
  with a have "real_of_int (round_even y) < of_int n + 1" by linarith
  then have "real_of_int (round_even y) < of_int (n + 1)" by simp
  then have "round_even y < n + 1" by (simp only: of_int_less_iff)
  then show ?thesis by simp
qed

lemma round_even_mono_lower: "of_int n \<le> y \<Longrightarrow> n \<le> round_even y"
proof -
  assume a: "of_int n \<le> y"
  have e: "\<bar>of_int (round_even y) - y\<bar> \<le> 1 / 2" by (rule round_even_error)
  then have "y - 1 / 2 \<le> of_int (round_even y)" by linarith
  with a have "real_of_int (n - 1) < of_int (round_even y)" by simp
  then have "n - 1 < round_even y" by (simp only: of_int_less_iff)
  then show ?thesis by simp
qed

text \<open>A real other than 0 lies between two consecutive powers of 2.\<close>

lemma log2_bounds:
  assumes "x \<noteq> 0"
  shows "2 powr of_int \<lfloor>log 2 \<bar>x\<bar>\<rfloor> \<le> \<bar>x\<bar>" and "\<bar>x\<bar> < 2 powr of_int (\<lfloor>log 2 \<bar>x\<bar>\<rfloor> + 1)"
proof -
  from assms have pos: "0 < \<bar>x\<bar>" by simp
  have "of_int \<lfloor>log 2 \<bar>x\<bar>\<rfloor> \<le> log 2 \<bar>x\<bar>" by simp
  then have "2 powr of_int \<lfloor>log 2 \<bar>x\<bar>\<rfloor> \<le> 2 powr log 2 \<bar>x\<bar>" by simp
  then show "2 powr of_int \<lfloor>log 2 \<bar>x\<bar>\<rfloor> \<le> \<bar>x\<bar>" using pos by simp
  have "log 2 \<bar>x\<bar> < of_int (\<lfloor>log 2 \<bar>x\<bar>\<rfloor> + 1)" by linarith
  then have "2 powr log 2 \<bar>x\<bar> < 2 powr of_int (\<lfloor>log 2 \<bar>x\<bar>\<rfloor> + 1)" by simp
  then show "\<bar>x\<bar> < 2 powr of_int (\<lfloor>log 2 \<bar>x\<bar>\<rfloor> + 1)" using pos by simp
qed

lemma round_even_abs: "\<bar>y\<bar> \<le> of_int n \<Longrightarrow> \<bar>round_even y\<bar> \<le> n"
proof -
  assume a: "\<bar>y\<bar> \<le> of_int n"
  then have "y \<le> of_int n" and "of_int (- n) \<le> y" by simp_all
  then have "round_even y \<le> n" and "- n \<le> round_even y"
    by (simp_all only: round_even_mono_upper round_even_mono_lower)
  then show ?thesis by simp
qed

text \<open>
  The standard model of rounding: a real between the smallest normal number and the largest
  double is rounded to a finite double with a relative error of at most \<open>2 powr (- 53)\<close>.
\<close>

lemma ulp_exponent_normal:
  assumes "x \<noteq> 0" and "2 powr (- 1022) \<le> \<bar>x\<bar>"
  shows "ulp_exponent x = \<lfloor>log 2 \<bar>x\<bar>\<rfloor> - 52"
proof -
  have "(2::real) powr (- 1022) < 2 powr of_int (\<lfloor>log 2 \<bar>x\<bar>\<rfloor> + 1)"
    using assms(2) log2_bounds(2) [OF assms(1)] by linarith
  then have "(- 1022 :: real) < of_int (\<lfloor>log 2 \<bar>x\<bar>\<rfloor> + 1)" by simp
  then have "- 1022 < \<lfloor>log 2 \<bar>x\<bar>\<rfloor> + 1" by linarith
  then have "- 1074 \<le> \<lfloor>log 2 \<bar>x\<bar>\<rfloor> - 52" by linarith
  then show ?thesis unfolding ulp_exponent_def by (rule max_absorb1)
qed

lemma to_double_rel:
  assumes lo: "2 powr (- 1022) \<le> \<bar>x\<bar>" and hi: "\<bar>x\<bar> \<le> 2 powr 1024 - 2 powr 971"
  shows "\<exists>d. \<bar>d\<bar> \<le> 2 powr (- 53) \<and> to_double x = Finite (x * (1 + d))"
proof -
  have "(0::real) < 2 powr (- 1022)" by simp
  with lo have nz: "x \<noteq> 0" by auto
  define k where "k = \<lfloor>log 2 \<bar>x\<bar>\<rfloor>"
  define s :: real where "s = 2 powr of_int (k - 52)"
  define m where "m = round_even (x / s)"
  have kl: "2 powr of_int k \<le> \<bar>x\<bar>" and ku: "\<bar>x\<bar> < 2 powr of_int (k + 1)"
    using log2_bounds [OF nz] by (simp_all add: k_def)
  have e: "ulp_exponent x = k - 52"
    using ulp_exponent_normal [OF nz lo] by (simp add: k_def)
  have spos: "0 < s" by (simp add: s_def)
  have err: "\<bar>of_int m - x / s\<bar> \<le> 1 / 2" unfolding m_def by (rule round_even_error)
  have "of_int m * s - x = (of_int m - x / s) * s"
    using spos by (simp add: field_simps)
  then have "\<bar>of_int m * s - x\<bar> = \<bar>of_int m - x / s\<bar> * s"
    using spos by (simp add: abs_mult)
  also have "\<dots> \<le> 1 / 2 * s" using err spos by (intro mult_right_mono) simp_all
  also have "1 / 2 * s = 2 powr of_int k * 2 powr (- 53)"
    by (simp add: s_def powr_add [symmetric] powr_diff powr_minus_divide)
  also have "\<dots> \<le> \<bar>x\<bar> * 2 powr (- 53)" using kl by (intro mult_right_mono) simp_all
  finally have close: "\<bar>of_int m * s - x\<bar> \<le> \<bar>x\<bar> * 2 powr (- 53)" .
  define d where "d = (of_int m * s - x) / x"
  have dval: "x * (1 + d) = of_int m * s" using nz by (simp add: d_def field_simps)
  have "\<bar>d\<bar> = \<bar>of_int m * s - x\<bar> / \<bar>x\<bar>" by (simp add: d_def)
  also have "\<dots> \<le> 2 powr (- 53)" using close nz by (simp add: divide_le_eq mult.commute)
  finally have dle: "\<bar>d\<bar> \<le> 2 powr (- 53)" .
  have "(0::real) < 2 powr 971" by (simp del: powr_numeral numeral_powr_numeral_real)
  with kl hi have "2 powr of_int k < (2::real) powr 1024" by linarith
  then have "real_of_int k < 1024" by (simp del: powr_numeral numeral_powr_numeral_real)
  then have k_le: "k \<le> 1023" by linarith
  have ms: "\<bar>of_int m * s\<bar> = of_int \<bar>m\<bar> * s" using spos by (simp add: abs_mult)
  have fin: "\<bar>of_int m * s\<bar> < 2 powr 1024"
  proof (cases "k = 1023")
    case True
    then have s971: "s = 2 powr 971" by (simp add: s_def del: powr_numeral numeral_powr_numeral_real)
    have "\<bar>x / s\<bar> = \<bar>x\<bar> / s" using spos by simp
    also have "\<dots> \<le> (2 powr 1024 - 2 powr 971) / s"
      using hi spos by (simp add: divide_right_mono del: powr_numeral numeral_powr_numeral_real)
    also have "\<dots> = 2 powr 53 - 1"
      by (simp add: s971 diff_divide_distrib powr_diff [symmetric] del: powr_numeral numeral_powr_numeral_real)
    also have "\<dots> = of_int (2 ^ 53 - 1)" by simp
    finally have "\<bar>m\<bar> \<le> 2 ^ 53 - 1" unfolding m_def by (rule round_even_abs)
    then have "real_of_int \<bar>m\<bar> \<le> 2 powr 53 - 1" by (simp add: of_int_le_iff [symmetric] del: of_int_le_iff of_int_abs)
    then have "of_int \<bar>m\<bar> * s \<le> (2 powr 53 - 1) * s"
      using spos by (intro mult_right_mono) simp_all
    also have "\<dots> = 2 powr 1024 - 2 powr 971"
      by (simp add: s971 left_diff_distrib powr_add [symmetric] del: powr_numeral numeral_powr_numeral_real)
    also have "\<dots> < 2 powr 1024" by (simp del: powr_numeral numeral_powr_numeral_real)
    finally show ?thesis using ms by (simp del: powr_numeral numeral_powr_numeral_real)
  next
    case False
    with k_le have k22: "k \<le> 1022" by simp
    have "\<bar>x / s\<bar> = \<bar>x\<bar> / s" using spos by simp
    also have "\<dots> \<le> 2 powr of_int (k + 1) / s"
      using ku spos by (simp add: divide_right_mono)
    also have "\<dots> = 2 powr 53"
      by (simp add: s_def powr_diff [symmetric])
    also have "\<dots> = of_int (2 ^ 53)" by simp
    finally have "\<bar>m\<bar> \<le> 2 ^ 53" unfolding m_def by (rule round_even_abs)
    then have "real_of_int \<bar>m\<bar> \<le> 2 powr 53" by (simp add: of_int_le_iff [symmetric] del: of_int_le_iff of_int_abs)
    then have "of_int \<bar>m\<bar> * s \<le> 2 powr 53 * s"
      using spos by (intro mult_right_mono) simp_all
    also have "\<dots> = 2 powr of_int (k + 1)"
      by (simp add: s_def powr_add [symmetric] add.commute del: powr_numeral numeral_powr_numeral_real)
    also have "\<dots> \<le> 2 powr 1023" using k22 by (simp del: powr_numeral numeral_powr_numeral_real)
    also have "\<dots> < (2::real) powr 1024" by (simp del: powr_numeral numeral_powr_numeral_real)
    finally show ?thesis using ms by (simp del: powr_numeral numeral_powr_numeral_real)
  qed
  have "to_double x = Finite (of_int m * s)"
    using nz fin by (simp add: to_double_def e Let_def m_def s_def del: powr_numeral numeral_powr_numeral_real)
  with dval dle show ?thesis by auto
qed

text \<open>A real of magnitude \<open>2 ^ 1024\<close> or more overflows to an infinity.\<close>

lemma to_double_overflow:
  assumes "2 powr 1024 \<le> \<bar>x\<bar>"
  shows "to_double x = Infinity"
proof -
  have "(0::real) < 2 powr 1024" by (simp del: powr_numeral numeral_powr_numeral_real)
  with assms have nz: "x \<noteq> 0" by auto
  define k where "k = \<lfloor>log 2 \<bar>x\<bar>\<rfloor>"
  define s :: real where "s = 2 powr of_int (k - 52)"
  define m where "m = round_even (x / s)"
  have kl: "2 powr of_int k \<le> \<bar>x\<bar>" and ku: "\<bar>x\<bar> < 2 powr of_int (k + 1)"
    using log2_bounds [OF nz] by (simp_all add: k_def)
  have "(2::real) powr 1024 < 2 powr of_int (k + 1)" using assms ku by linarith
  then have "(1024::real) < of_int (k + 1)" by (simp del: powr_numeral numeral_powr_numeral_real)
  then have k_ge: "1024 \<le> k" by linarith
  then have "- 1074 \<le> k - 52" by linarith
  then have e: "ulp_exponent x = k - 52"
    unfolding ulp_exponent_def k_def by (rule max_absorb1)
  have spos: "0 < s" by (simp add: s_def)
  have q: "2 powr 52 \<le> \<bar>x / s\<bar>"
  proof -
    have "2 powr 52 = 2 powr of_int k / s"
      by (simp add: s_def powr_diff [symmetric] del: powr_numeral numeral_powr_numeral_real)
    also have "\<dots> \<le> \<bar>x\<bar> / s" using kl spos by (simp add: divide_right_mono)
    also have "\<dots> = \<bar>x / s\<bar>" using spos by simp
    finally show ?thesis .
  qed
  have big: "2 ^ 52 \<le> \<bar>m\<bar>"
  proof (cases "0 \<le> x")
    case True
    with q spos have "of_int (2 ^ 52) \<le> x / s" by simp
    then have "2 ^ 52 \<le> m" unfolding m_def by (rule round_even_mono_lower)
    then show ?thesis by simp
  next
    case False
    with spos have "x / s < 0" by (simp add: divide_neg_pos)
    with q have "x / s \<le> - (2 powr 52)" by linarith
    then have "x / s \<le> of_int (- (2 ^ 52))" by simp
    then have "m \<le> - (2 ^ 52)" unfolding m_def by (rule round_even_mono_upper)
    then show ?thesis by simp
  qed
  then have "(2::real) powr 52 \<le> of_int \<bar>m\<bar>"
    by (simp add: of_int_le_iff [symmetric] del: of_int_le_iff of_int_abs)
  then have "2 powr 52 * s \<le> of_int \<bar>m\<bar> * s"
    using spos by (intro mult_right_mono) simp_all
  moreover have "2 powr 52 * s = 2 powr of_int k"
    by (simp add: s_def powr_add [symmetric] del: powr_numeral numeral_powr_numeral_real)
  moreover have "(2::real) powr 1024 \<le> 2 powr of_int k"
    using k_ge by (simp del: powr_numeral numeral_powr_numeral_real)
  moreover have "\<bar>of_int m * s\<bar> = of_int \<bar>m\<bar> * s" using spos by (simp add: abs_mult)
  ultimately have "2 powr 1024 \<le> \<bar>of_int m * s\<bar>" by linarith
  then show ?thesis
    using nz by (simp add: to_double_def e Let_def m_def s_def del: powr_numeral numeral_powr_numeral_real)
qed

text \<open>The double of a given real, from the binade it lies in; and in the subnormal range.\<close>

lemma to_double_eval:
  assumes "2 powr of_int k \<le> \<bar>x\<bar>" and "\<bar>x\<bar> < 2 powr of_int (k + 1)"
    and "- 1022 \<le> k" and "of_int (round_even (x / 2 powr of_int (k - 52))) * 2 powr of_int (k - 52) = y"
    and "\<bar>y\<bar> < 2 powr 1024"
  shows "to_double x = Finite y"
proof -
  have "(0::real) < 2 powr of_int k" by simp
  with assms(1) have nz: "x \<noteq> 0" by auto
  from nz have pos: "0 < \<bar>x\<bar>" by simp
  have "\<lfloor>log 2 \<bar>x\<bar>\<rfloor> = k"
    using assms(1,2) pos by (simp add: floor_log_eq_powr_iff)
  then have "ulp_exponent x = k - 52"
    using assms(3) by (simp add: ulp_exponent_def)
  then show ?thesis
    using nz assms(4,5) by (simp add: to_double_def Let_def del: powr_numeral numeral_powr_numeral_real)
qed

subsection \<open>The conversion steps\<close>

lemma below_overflow:
  assumes "\<bar>y\<bar> \<le> 2 ^ n" and "n < 1024"
  shows "\<bar>y :: real\<bar> < 2 powr 1024"
proof -
  have "(2::real) ^ n = 2 powr real n" by (simp add: powr_realpow)
  also have "\<dots> < 2 powr 1024" using assms(2) by (simp del: no_pow)
  finally show ?thesis using assms(1) by linarith
qed

text \<open>The constant of the source is the double of the literal 1.333.\<close>

lemma PT_is_double: "to_double (1333 / 1000) = Finite PT_TO_PX_RATIO"
proof (rule to_double_eval [of 0])
  show "2 powr of_int 0 \<le> \<bar>1333 / 1000 :: real\<bar>" by simp
  show "\<bar>1333 / 1000 :: real\<bar> < 2 powr of_int (0 + 1)" by simp
  show "- 1022 \<le> (0::int)" by simp
  have "(1333 / 1000 :: real) / 2 powr of_int (0 - 52) = 1333 * 2 ^ 52 / 1000"
    by (simp add: powr_minus_divide)
  moreover have "round_even (1333 * 2 ^ 52 / 1000) = 6003298303284871"
    by (simp add: round_even_def Let_def)
  ultimately show "of_int (round_even ((1333 / 1000) / 2 powr of_int (0 - 52))) * 2 powr of_int (0 - 52) = PT_TO_PX_RATIO"
    by (simp add: PT_TO_PX_RATIO_def powr_minus_divide)
  show "\<bar>PT_TO_PX_RATIO\<bar> < 2 powr 1024"
    by (rule below_overflow [of _ 1]) (simp_all add: PT_TO_PX_RATIO_def)
qed

text \<open>A product or quotient that neither overflows nor underflows is the exact one up to a
  relative error of \<open>2 powr (- 53)\<close>; so is a step of the conversion.\<close>

lemma times_rel:
  assumes "x * c = 0 \<or> (2 powr (- 1022) \<le> \<bar>x * c\<bar> \<and> \<bar>x * c\<bar> \<le> 2 powr 1024 - 2 powr 971)"
  shows "\<exists>d. \<bar>d\<bar> \<le> 2 powr (- 53) \<and> double_times (Finite x) (Finite c) = Finite (x * c * (1 + d))"
proof (cases "x * c = 0")
  case True
  then have "double_times (Finite x) (Finite c) = Finite (x * c * (1 + 0))"
    by (simp add: to_double_def)
  moreover have "\<bar>0::real\<bar> \<le> 2 powr (- 53)" by simp
  ultimately show ?thesis by blast
next
  case False
  with assms have "2 powr (- 1022) \<le> \<bar>x * c\<bar>" and "\<bar>x * c\<bar> \<le> 2 powr 1024 - 2 powr 971"
    by blast+
  from to_double_rel [OF this] show ?thesis by simp
qed

lemma divide_rel:
  assumes "c \<noteq> 0"
    and "x / c = 0 \<or> (2 powr (- 1022) \<le> \<bar>x / c\<bar> \<and> \<bar>x / c\<bar> \<le> 2 powr 1024 - 2 powr 971)"
  shows "\<exists>d. \<bar>d\<bar> \<le> 2 powr (- 53) \<and> double_divide (Finite x) (Finite c) = Finite (x / c * (1 + d))"
proof (cases "x / c = 0")
  case True
  then have "double_divide (Finite x) (Finite c) = Finite (x / c * (1 + 0))"
    using assms(1) by (simp add: to_double_def)
  moreover have "\<bar>0::real\<bar> \<le> 2 powr (- 53)" by simp
  ultimately show ?thesis by blast
next
  case False
  with assms(2) have "2 powr (- 1022) \<le> \<bar>x / c\<bar>" and "\<bar>x / c\<bar> \<le> 2 powr 1024 - 2 powr 971"
    by blast+
  from to_double_rel [OF this] show ?thesis using assms(1) by simp
qed

lemma toPixels_rel:
  assumes "unit_factor u base \<noteq> 0"
    and "u \<notin> {''pt'', ''em'', ''rem''} \<or> x * unit_factor u base = 0
         \<or> (2 powr (- 1022) \<le> \<bar>x * unit_factor u base\<bar>
             \<and> \<bar>x * unit_factor u base\<bar> \<le> 2 powr 1024 - 2 powr 971)"
  shows "\<exists>d. \<bar>d\<bar> \<le> 2 powr (- 53)
           \<and> toPixels (Finite x) u base = Finite (x * unit_factor u base * (1 + d))"
proof -
  consider "u \<notin> {''pt'', ''em'', ''rem''}" | "u = ''pt''" | "u = ''em''" | "u = ''rem''" by auto
  then show ?thesis
  proof cases
    case 1
    then have "toPixels (Finite x) u base = Finite (x * unit_factor u base * (1 + 0))"
      by (simp add: toPixels_def unit_factor_def)
    moreover have "\<bar>0::real\<bar> \<le> 2 powr (- 53)" by simp
    ultimately show ?thesis by blast
  next
    case 2
    then have f: "unit_factor u base = PT_TO_PX_RATIO" by (simp add: unit_factor_def)
    from 2 have "toPixels (Finite x) u base = double_times (Finite x) (Finite PT_TO_PX_RATIO)"
      by (simp add: toPixels_def)
    with times_rel [of x PT_TO_PX_RATIO] assms(2) f 2 show ?thesis by simp
  next
    case 3
    with assms(1) obtain b where b: "base = Finite b" and f: "unit_factor u base = b"
      by (cases base) (simp_all add: unit_factor_def)
    from 3 have "toPixels (Finite x) u base = double_times (Finite x) (Finite b)"
      by (simp add: toPixels_def b)
    with times_rel [of x b] assms(2) f 3 show ?thesis by simp
  next
    case 4
    with assms(1) obtain b where b: "base = Finite b" and f: "unit_factor u base = b"
      by (cases base) (simp_all add: unit_factor_def)
    from 4 have "toPixels (Finite x) u base = double_times (Finite x) (Finite b)"
      by (simp add: toPixels_def b)
    with times_rel [of x b] assms(2) f 4 show ?thesis by simp
  qed
qed

lemma fromPixels_rel:
  assumes "unit_factor u base \<noteq> 0"
    and "u \<notin> {''pt'', ''em'', ''rem''} \<or> x / unit_factor u base = 0
         \<or> (2 powr (- 1022) \<le> \<bar>x / unit_factor u base\<bar>
             \<and> \<bar>x / unit_factor u base\<bar> \<le> 2 powr 1024 - 2 powr 971)"
  shows "\<exists>d. \<bar>d\<bar> \<le> 2 powr (- 53)
           \<and> fromPixels (Finite x) u base = Finite (x / unit_factor u base * (1 + d))"
proof -
  consider "u \<notin> {''pt'', ''em'', ''rem''}" | "u = ''pt''" | "u = ''em''" | "u = ''rem''" by auto
  then show ?thesis
  proof cases
    case 1
    then have "fromPixels (Finite x) u base = Finite (x / unit_factor u base * (1 + 0))"
      by (simp add: fromPixels_def unit_factor_def)
    moreover have "\<bar>0::real\<bar> \<le> 2 powr (- 53)" by simp
    ultimately show ?thesis by blast
  next
    case 2
    then have f: "unit_factor u base = PT_TO_PX_RATIO" by (simp add: unit_factor_def)
    from 2 have "fromPixels (Finite x) u base = double_divide (Finite x) (Finite PT_TO_PX_RATIO)"
      by (simp add: fromPixels_def)
    with divide_rel [of PT_TO_PX_RATIO x] assms(1,2) f 2 show ?thesis by simp
  next
    case 3
    with assms(1) obtain b where b: "base = Finite b" and f: "unit_factor u base = b"
      by (cases base) (simp_all add: unit_factor_def)
    from 3 have "fromPixels (Finite x) u base = double_divide (Finite x) (Finite b)"
      by (simp add: fromPixels_def b)
    with divide_rel [of b x] assms(1,2) f 3 show ?thesis by simp
  next
    case 4
    with assms(1) obtain b where b: "base = Finite b" and f: "unit_factor u base = b"
      by (cases base) (simp_all add: unit_factor_def)
    from 4 have "fromPixels (Finite x) u base = double_divide (Finite x) (Finite b)"
      by (simp add: fromPixels_def b)
    with divide_rel [of b x] assms(1,2) f 4 show ?thesis by simp
  qed
qed

text \<open>Relative errors accumulate, and an exact result that rounds well stays in the range of
  the normal doubles under the relative change that three operations can make.\<close>

lemma rel_step:
  assumes "\<bar>p - 1\<bar> \<le> a" and "a \<le> 1 / 4" and "\<bar>d\<bar> \<le> e"
  shows "\<bar>p * (1 + d) - 1 :: real\<bar> \<le> a + 5 / 4 * e"
proof -
  have "\<bar>p\<bar> \<le> 5 / 4" using assms(1,2) by linarith
  then have "\<bar>p\<bar> * \<bar>d\<bar> \<le> 5 / 4 * e"
    using assms(3) by (intro mult_mono) simp_all
  then have "\<bar>p * d\<bar> \<le> 5 / 4 * e" by (simp add: abs_mult)
  moreover have "p * (1 + d) - 1 = (p - 1) + p * d" by (simp add: algebra_simps)
  ultimately show ?thesis using assms(1) by linarith
qed

lemma scaled_in_range:
  assumes "w \<in> {''pt'', ''em'', ''rem''} \<longrightarrow> rounds_well a" and "\<bar>p - 1\<bar> \<le> 4 * 2 powr (- 53)"
  shows "w \<notin> {''pt'', ''em'', ''rem''} \<or> a * p = 0
         \<or> (2 powr (- 1022) \<le> \<bar>a * p\<bar> \<and> \<bar>a * p\<bar> \<le> 2 powr 1024 - 2 powr 971)"
proof (cases "w \<notin> {''pt'', ''em'', ''rem''} \<or> a = 0")
  case True
  then show ?thesis by auto
next
  case False
  then have scaled: "w \<in> {''pt'', ''em'', ''rem''}" and a0: "a \<noteq> 0" by simp_all
  from assms(1) scaled have "rounds_well a" by (rule mp)
  with a0 have lo: "2 powr (- 1022) * (1 + 2 powr (- 50)) \<le> \<bar>a\<bar>"
    and hi: "\<bar>a\<bar> \<le> 2 powr 1024 * (1 - 2 powr (- 50))"
    by (simp_all add: rounds_well_def in_normal_range_def del: no_pow)
  have u: "(2::real) powr (- 53) = 1 / 2 ^ 53" and w: "(2::real) powr (- 50) = 1 / 2 ^ 50"
    by (simp_all add: powr_minus_divide)
  have p: "1 - 4 * 2 powr (- 53) \<le> \<bar>p\<bar>" "\<bar>p\<bar> \<le> 1 + 4 * 2 powr (- 53)"
    using assms(2) by linarith+
  have p0: "0 \<le> \<bar>p\<bar>" by simp
  have k1: "(1::real) \<le> (1 + 2 powr (- 50)) * (1 - 4 * 2 powr (- 53))"
    unfolding u w by simp
  have k2: "(1 - 2 powr (- 50)) * (1 + 4 * 2 powr (- 53)) \<le> 1 - (2::real) powr (- 53)"
    unfolding u w by simp
  have q1: "(0::real) \<le> 1 - 4 * 2 powr (- 53)" unfolding u by simp
  have q2: "(0::real) \<le> 1 - 2 powr (- 50)" unfolding w by simp
  have L0: "(0::real) \<le> 2 powr (- 1022)" and H0: "(0::real) \<le> 2 powr 1024" by simp_all
  have m: "\<bar>a * p\<bar> = \<bar>a\<bar> * \<bar>p\<bar>" by (simp add: abs_mult)
  have "(2::real) powr (- 1022) * 1 \<le> 2 powr (- 1022) * ((1 + 2 powr (- 50)) * (1 - 4 * 2 powr (- 53)))"
    using k1 L0 by (rule mult_left_mono)
  also have "\<dots> = 2 powr (- 1022) * (1 + 2 powr (- 50)) * (1 - 4 * 2 powr (- 53))"
    by (simp only: mult.assoc)
  also have "\<dots> \<le> \<bar>a\<bar> * (1 - 4 * 2 powr (- 53))" using lo q1 by (rule mult_right_mono)
  also have "\<dots> \<le> \<bar>a\<bar> * \<bar>p\<bar>" using p(1) by (intro mult_left_mono) simp_all
  finally have l: "2 powr (- 1022) \<le> \<bar>a\<bar> * \<bar>p\<bar>" by simp
  have "\<bar>a\<bar> * \<bar>p\<bar> \<le> 2 powr 1024 * (1 - 2 powr (- 50)) * \<bar>p\<bar>" using hi p0 by (rule mult_right_mono)
  also have "\<dots> \<le> 2 powr 1024 * (1 - 2 powr (- 50)) * (1 + 4 * 2 powr (- 53))"
    using p(2) H0 q2 by (intro mult_left_mono mult_nonneg_nonneg)
  also have "\<dots> = 2 powr 1024 * ((1 - 2 powr (- 50)) * (1 + 4 * 2 powr (- 53)))"
    by (simp only: mult.assoc)
  also have "\<dots> \<le> 2 powr 1024 * (1 - 2 powr (- 53))" using k2 H0 by (rule mult_left_mono)
  also have "\<dots> = 2 powr 1024 - 2 powr 1024 * 2 powr (- 53)" by (simp only: right_diff_distrib mult_1_right)
  also have "(2::real) powr 1024 * 2 powr (- 53) = 2 powr 971"
    by (simp add: powr_add [symmetric] del: no_pow)
  finally have "\<bar>a\<bar> * \<bar>p\<bar> \<le> 2 powr 1024 - 2 powr 971" .
  with l m show ?thesis by simp
qed

subsection \<open>The round trip\<close>

text \<open>
  Claim C4, without division by zero, overflow and underflow. Take a finite value \<open>v\<close>, a
  source w \<open>u\<close>, a target w \<open>t\<close> and a base font size, which is a finite number other
  than 0 when \<open>u\<close> or \<open>t\<close> is em or rem and anything otherwise. Suppose that each multiplication
  and division of the two conversions has an exact result that is 0 or of a magnitude from
  \<open>2 powr (- 1022) * (1 + 2 powr (- 50))\<close> to \<open>2 powr 1024 * (1 - 2 powr (- 50))\<close>: these are
  \<open>v\<close> and its exact pixel value when \<open>u\<close> is pt, em or rem, and the exact pixel value and the
  exact value in the target w when \<open>t\<close> is pt, em or rem (no other w is multiplied or
  divided). Then converting \<open>v\<close> from \<open>u\<close> to \<open>t\<close> and the result back to \<open>u\<close> gives a finite
  number within the relative tolerance \<open>5 * 2 powr (- 53)\<close> of \<open>v\<close>; that is about
  \<open>5.6e-16 * v\<close>.
\<close>

theorem font_round_trip_within_tolerance:
  assumes factors: "unit_factor u base \<noteq> 0" "unit_factor t base \<noteq> 0"
    and source: "u \<in> {''pt'', ''em'', ''rem''} \<longrightarrow> rounds_well v \<and> rounds_well (v * unit_factor u base)"
    and target: "t \<in> {''pt'', ''em'', ''rem''} \<longrightarrow> rounds_well (v * unit_factor u base)
                   \<and> rounds_well (v * unit_factor u base / unit_factor t base)"
  shows "\<exists>y. convert_and_back (Finite v) u t base = Finite y
             \<and> \<bar>y - v\<bar> \<le> 5 * 2 powr (- 53) * \<bar>v\<bar>"
proof -
  define fu where "fu = unit_factor u base"
  define ft where "ft = unit_factor t base"
  define e :: real where "e = 2 powr (- 53)"
  have fu: "fu \<noteq> 0" and ft: "ft \<noteq> 0" using factors by (simp_all add: fu_def ft_def)
  have "e = 1 / 2 ^ 53" by (simp add: e_def powr_minus_divide)
  then have e_small: "0 \<le> e" "e \<le> 1 / 100" by simp_all
  have r1: "u \<in> {''pt'', ''em'', ''rem''} \<longrightarrow> rounds_well (v * fu)"
    and r4: "u \<in> {''pt'', ''em'', ''rem''} \<longrightarrow> rounds_well v"
    and r2: "t \<in> {''pt'', ''em'', ''rem''} \<longrightarrow> rounds_well (v * fu / ft)"
    and r3: "t \<in> {''pt'', ''em'', ''rem''} \<longrightarrow> rounds_well (v * fu)"
    using source target by (simp_all add: fu_def ft_def)
  have "\<bar>(1::real) - 1\<bar> \<le> 4 * 2 powr (- 53)" by simp
  with r1 have "u \<notin> {''pt'', ''em'', ''rem''} \<or> v * fu * 1 = 0
      \<or> (2 powr (- 1022) \<le> \<bar>v * fu * 1\<bar> \<and> \<bar>v * fu * 1\<bar> \<le> 2 powr 1024 - 2 powr 971)"
    by (rule scaled_in_range)
  then obtain d1 where d1: "\<bar>d1\<bar> \<le> e"
    and s1: "toPixels (Finite v) u base = Finite (v * fu * (1 + d1))"
    using toPixels_rel [OF factors(1), of v] by (auto simp add: fu_def e_def)
  have p1: "\<bar>(1 + d1) - 1\<bar> \<le> e" using d1 by simp
  then have "\<bar>(1 + d1) - 1\<bar> \<le> 4 * e" using e_small by linarith
  then have "\<bar>(1 + d1) - 1\<bar> \<le> 4 * 2 powr (- 53)" by (simp only: e_def)
  with r2 have "t \<notin> {''pt'', ''em'', ''rem''} \<or> v * fu / ft * (1 + d1) = 0
      \<or> (2 powr (- 1022) \<le> \<bar>v * fu / ft * (1 + d1)\<bar>
          \<and> \<bar>v * fu / ft * (1 + d1)\<bar> \<le> 2 powr 1024 - 2 powr 971)"
    by (rule scaled_in_range)
  moreover have "v * fu / ft * (1 + d1) = v * fu * (1 + d1) / ft" by simp
  ultimately obtain d2 where d2: "\<bar>d2\<bar> \<le> e"
    and s2: "fromPixels (Finite (v * fu * (1 + d1))) t base
               = Finite (v * fu * (1 + d1) / ft * (1 + d2))"
    using fromPixels_rel [OF factors(2), of "v * fu * (1 + d1)"]
    by (auto simp add: ft_def e_def)
  have p2: "\<bar>(1 + d1) * (1 + d2) - 1\<bar> \<le> e + 5 / 4 * e"
    using p1 _ d2 by (rule rel_step) (use e_small in linarith)
  then have "\<bar>(1 + d1) * (1 + d2) - 1\<bar> \<le> 4 * e" using e_small by linarith
  then have "\<bar>(1 + d1) * (1 + d2) - 1\<bar> \<le> 4 * 2 powr (- 53)" by (simp only: e_def)
  with r3 have "t \<notin> {''pt'', ''em'', ''rem''} \<or> v * fu * ((1 + d1) * (1 + d2)) = 0
      \<or> (2 powr (- 1022) \<le> \<bar>v * fu * ((1 + d1) * (1 + d2))\<bar>
          \<and> \<bar>v * fu * ((1 + d1) * (1 + d2))\<bar> \<le> 2 powr 1024 - 2 powr 971)"
    by (rule scaled_in_range)
  moreover have "v * fu * ((1 + d1) * (1 + d2)) = v * fu * (1 + d1) / ft * (1 + d2) * ft"
    using ft by simp
  ultimately obtain d3 where d3: "\<bar>d3\<bar> \<le> e"
    and s3: "toPixels (Finite (v * fu * (1 + d1) / ft * (1 + d2))) t base
               = Finite (v * fu * (1 + d1) / ft * (1 + d2) * ft * (1 + d3))"
    using toPixels_rel [OF factors(2), of "v * fu * (1 + d1) / ft * (1 + d2)"]
    by (auto simp add: ft_def e_def)
  have p3: "\<bar>(1 + d1) * (1 + d2) * (1 + d3) - 1\<bar> \<le> e + 5 / 4 * e + 5 / 4 * e"
    using p2 _ d3 by (rule rel_step) (use e_small in linarith)
  then have "\<bar>(1 + d1) * (1 + d2) * (1 + d3) - 1\<bar> \<le> 4 * e" using e_small by linarith
  then have "\<bar>(1 + d1) * (1 + d2) * (1 + d3) - 1\<bar> \<le> 4 * 2 powr (- 53)" by (simp only: e_def)
  with r4 have "u \<notin> {''pt'', ''em'', ''rem''} \<or> v * ((1 + d1) * (1 + d2) * (1 + d3)) = 0
      \<or> (2 powr (- 1022) \<le> \<bar>v * ((1 + d1) * (1 + d2) * (1 + d3))\<bar>
          \<and> \<bar>v * ((1 + d1) * (1 + d2) * (1 + d3))\<bar> \<le> 2 powr 1024 - 2 powr 971)"
    by (rule scaled_in_range)
  moreover have "v * ((1 + d1) * (1 + d2) * (1 + d3))
                 = v * fu * (1 + d1) / ft * (1 + d2) * ft * (1 + d3) / fu"
    using fu ft by simp
  ultimately obtain d4 where d4: "\<bar>d4\<bar> \<le> e"
    and s4: "fromPixels (Finite (v * fu * (1 + d1) / ft * (1 + d2) * ft * (1 + d3))) u base
               = Finite (v * fu * (1 + d1) / ft * (1 + d2) * ft * (1 + d3) / fu * (1 + d4))"
    using fromPixels_rel [OF factors(1), of "v * fu * (1 + d1) / ft * (1 + d2) * ft * (1 + d3)"]
    by (auto simp add: fu_def e_def)
  have p4: "\<bar>(1 + d1) * (1 + d2) * (1 + d3) * (1 + d4) - 1\<bar> \<le> e + 5 / 4 * e + 5 / 4 * e + 5 / 4 * e"
    using p3 _ d4 by (rule rel_step) (use e_small in linarith)
  define y where "y = v * ((1 + d1) * (1 + d2) * (1 + d3) * (1 + d4))"
  have "v * fu * (1 + d1) / ft * (1 + d2) * ft * (1 + d3) / fu * (1 + d4) = y"
    using fu ft by (simp add: y_def)
  moreover have "convert_and_back (Finite v) u t base
      = Finite (v * fu * (1 + d1) / ft * (1 + d2) * ft * (1 + d3) / fu * (1 + d4))"
    by (simp only: convert_and_back_eq s1 s2 s3 s4)
  ultimately have res: "convert_and_back (Finite v) u t base = Finite y" by simp
  have "y - v = v * ((1 + d1) * (1 + d2) * (1 + d3) * (1 + d4) - 1)"
    by (simp add: y_def algebra_simps)
  then have "\<bar>y - v\<bar> = \<bar>v\<bar> * \<bar>(1 + d1) * (1 + d2) * (1 + d3) * (1 + d4) - 1\<bar>"
    by (simp add: abs_mult)
  also have "\<dots> \<le> \<bar>v\<bar> * (5 * e)"
    using p4 e_small by (intro mult_left_mono) simp_all
  finally have "\<bar>y - v\<bar> \<le> 5 * 2 powr (- 53) * \<bar>v\<bar>" by (simp add: e_def mult.commute)
  with res show ?thesis by blast
qed

text \<open>The double of a given real in the subnormal range.\<close>

lemma to_double_subnormal:
  assumes "x \<noteq> 0" and "\<bar>x\<bar> < 2 powr (- 1022)"
    and "of_int (round_even (x / 2 powr (- 1074))) * 2 powr (- 1074) = y"
    and "\<bar>y\<bar> < 2 powr 1024"
  shows "to_double x = Finite y"
proof -
  have "2 powr of_int \<lfloor>log 2 \<bar>x\<bar>\<rfloor> < (2::real) powr (- 1022)"
    using log2_bounds(1) [OF assms(1)] assms(2) by linarith
  then have "of_int \<lfloor>log 2 \<bar>x\<bar>\<rfloor> < (- 1022 :: real)" by simp
  then have "\<lfloor>log 2 \<bar>x\<bar>\<rfloor> - 52 \<le> - 1074" by linarith
  then have "ulp_exponent x = - 1074" unfolding ulp_exponent_def by (rule max_absorb2)
  then show ?thesis
    using assms(1,3,4) by (simp add: to_double_def Let_def del: no_pow)
qed

lemma rounds_wellI:
  assumes "1 / 2 ^ n \<le> \<bar>x\<bar>" and "\<bar>x\<bar> \<le> 2 ^ m" and "n \<le> 1021" and "m \<le> 1023"
  shows "rounds_well x"
proof -
  have w: "(2::real) powr (- 50) = 1 / 2 ^ 50" by (simp add: powr_minus_divide)
  have "(2::real) powr (- 1022) * (1 + 2 powr (- 50)) \<le> 2 powr (- 1022) * 2"
    unfolding w by (intro mult_left_mono) simp_all
  also have "\<dots> = 2 powr (- 1021)"
    using powr_add [of "2::real" "- 1022" 1] by (simp del: no_pow)
  also have "\<dots> \<le> 2 powr (- real n)" using assms(3) by simp
  also have "\<dots> = 1 / 2 ^ n" by (simp add: powr_minus_divide powr_realpow)
  finally have lo: "2 powr (- 1022) * (1 + 2 powr (- 50)) \<le> \<bar>x\<bar>" using assms(1) by linarith
  have "(2::real) ^ m = 2 powr real m" by (simp add: powr_realpow)
  also have "\<dots> \<le> 2 powr 1023" using assms(4) by (simp del: no_pow)
  also have "\<dots> = 2 powr 1024 * (1 / 2)"
    using powr_add [of "2::real" 1023 1] by (simp del: no_pow)
  also have "\<dots> \<le> 2 powr 1024 * (1 - 2 powr (- 50))"
    unfolding w by (intro mult_left_mono) simp_all
  finally have "\<bar>x\<bar> \<le> 2 powr 1024 * (1 - 2 powr (- 50))" using assms(2) by linarith
  with lo show ?thesis by (simp add: rounds_well_def in_normal_range_def del: no_pow)
qed

text \<open>12pt to rem and back, with the default base font size of 16.\<close>

theorem font_round_trip_within_tolerance_witness:
  "unit_factor ''pt'' (Finite 16) \<noteq> 0 \<and> unit_factor ''rem'' (Finite 16) \<noteq> 0
   \<and> ''pt'' \<in> {''pt'', ''em'', ''rem''} \<and> ''rem'' \<in> {''pt'', ''em'', ''rem''}
   \<and> rounds_well 12 \<and> rounds_well (12 * unit_factor ''pt'' (Finite 16))
   \<and> rounds_well (12 * unit_factor ''pt'' (Finite 16) / unit_factor ''rem'' (Finite 16))
   \<and> (\<exists>y. convert_and_back (Finite 12) ''pt'' ''rem'' (Finite 16) = Finite y
          \<and> \<bar>y - 12\<bar> \<le> 5 * 2 powr (- 53) * \<bar>12\<bar>)"
proof -
  have f1: "unit_factor ''pt'' (Finite 16) = PT_TO_PX_RATIO"
    and f2: "unit_factor ''rem'' (Finite 16) = 16"
    by (simp_all add: unit_factor_def)
  have n1: "unit_factor ''pt'' (Finite 16) \<noteq> 0" and n2: "unit_factor ''rem'' (Finite 16) \<noteq> 0"
    by (simp_all add: f1 f2 PT_TO_PX_RATIO_def)
  have r1: "rounds_well 12"
    by (rule rounds_wellI [of 0 _ 4]) simp_all
  have r2: "rounds_well (12 * unit_factor ''pt'' (Finite 16))"
    unfolding f1 by (rule rounds_wellI [of 0 _ 4]) (simp_all add: PT_TO_PX_RATIO_def)
  have r3: "rounds_well (12 * unit_factor ''pt'' (Finite 16) / unit_factor ''rem'' (Finite 16))"
    unfolding f1 f2 by (rule rounds_wellI [of 1 _ 0]) (simp_all add: PT_TO_PX_RATIO_def)
  have u1: "''pt'' \<in> {''pt'', ''em'', ''rem''}" and u2: "''rem'' \<in> {''pt'', ''em'', ''rem''}"
    by simp_all
  from r1 r2 have src: "''pt'' \<in> {''pt'', ''em'', ''rem''}
      \<longrightarrow> rounds_well 12 \<and> rounds_well (12 * unit_factor ''pt'' (Finite 16))"
    by (simp only: simp_thms)
  from r2 r3 have tgt: "''rem'' \<in> {''pt'', ''em'', ''rem''}
      \<longrightarrow> rounds_well (12 * unit_factor ''pt'' (Finite 16))
        \<and> rounds_well (12 * unit_factor ''pt'' (Finite 16) / unit_factor ''rem'' (Finite 16))"
    by (simp only: simp_thms)
  from font_round_trip_within_tolerance [OF n1 n2 src tgt]
  have c: "\<exists>y. convert_and_back (Finite 12) ''pt'' ''rem'' (Finite 16) = Finite y
          \<and> \<bar>y - 12\<bar> \<le> 5 * 2 powr (- 53) * \<bar>12\<bar>" .
  from n1 n2 u1 u2 r1 r2 r3 c show ?thesis by (intro conjI)
qed

text \<open>Two of the ways the round trip is lost: a product that overflows, and a product that
  underflows and is rounded to an even multiple of the smallest double.\<close>

lemma overflow_pt:
  "double_times (Finite (7 * 2 powr 1021)) (Finite PT_TO_PX_RATIO) = Infinity"
proof -
  have "(2::real) powr 1024 = 8 * 2 powr 1021"
    using powr_add [of "2::real" 3 1021] by (simp del: no_pow) simp
  also have "\<dots> \<le> 7 * PT_TO_PX_RATIO * 2 powr 1021"
    by (intro mult_right_mono) (simp_all add: PT_TO_PX_RATIO_def del: no_pow)
  finally have "2 powr 1024 \<le> \<bar>7 * 2 powr 1021 * PT_TO_PX_RATIO\<bar>"
    by (simp add: abs_mult PT_TO_PX_RATIO_def mult.commute del: no_pow)
  then show ?thesis by (simp add: to_double_overflow del: no_pow)
qed

lemma tiny_pos: "(0::real) < 2 powr (- 1074)" by simp

lemma underflow_half:
  "double_times (Finite (3 * 2 powr (- 1074))) (Finite (1 / 2)) = Finite (2 * 2 powr (- 1074))"
proof -
  have "to_double (3 * 2 powr (- 1074) * (1 / 2)) = Finite (2 * 2 powr (- 1074))"
  proof (rule to_double_subnormal)
    show "3 * 2 powr (- 1074) * (1 / 2) \<noteq> (0::real)" by simp
    have "(2::real) powr (- 1022) = 2 powr 52 * 2 powr (- 1074)"
      using powr_add [of "2::real" 52 "- 1074"] by simp
    moreover have "3 * 2 powr (- 1074) * (1 / 2) < 2 powr 52 * (2::real) powr (- 1074)"
      using tiny_pos by simp
    ultimately show "\<bar>3 * 2 powr (- 1074) * (1 / 2)\<bar> < (2::real) powr (- 1022)" by simp
    have "3 * 2 powr (- 1074) * (1 / 2) / 2 powr (- 1074) = (3 / 2 :: real)" by simp
    moreover have "round_even (3 / 2) = 2" by (simp add: round_even_def Let_def)
    ultimately show "of_int (round_even (3 * 2 powr (- 1074) * (1 / 2) / 2 powr (- 1074)))
        * 2 powr (- 1074) = 2 * 2 powr (- 1074)" by simp
    have "\<bar>2 * 2 powr (- 1074) :: real\<bar> \<le> 2 ^ 1" by (simp add: powr_minus_divide)
    then show "\<bar>2 * 2 powr (- 1074) :: real\<bar> < 2 powr 1024" by (rule below_overflow) simp
  qed
  then show ?thesis by simp
qed

lemma underflow_back:
  "double_divide (Finite (2 * 2 powr (- 1074))) (Finite (1 / 2)) = Finite (4 * 2 powr (- 1074))"
proof -
  have "to_double (2 * 2 powr (- 1074) / (1 / 2)) = Finite (4 * 2 powr (- 1074))"
  proof (rule to_double_subnormal)
    show "2 * 2 powr (- 1074) / (1 / 2) \<noteq> (0::real)" by simp
    have "(2::real) powr (- 1022) = 2 powr 52 * 2 powr (- 1074)"
      using powr_add [of "2::real" 52 "- 1074"] by simp
    moreover have "2 * 2 powr (- 1074) / (1 / 2) < 2 powr 52 * (2::real) powr (- 1074)"
      using tiny_pos by simp
    ultimately show "\<bar>2 * 2 powr (- 1074) / (1 / 2)\<bar> < (2::real) powr (- 1022)" by simp
    have "2 * 2 powr (- 1074) / (1 / 2) / 2 powr (- 1074) = (4 :: real)" by simp
    moreover have "round_even 4 = 4" by (simp add: round_even_def Let_def)
    ultimately show "of_int (round_even (2 * 2 powr (- 1074) / (1 / 2) / 2 powr (- 1074)))
        * 2 powr (- 1074) = 4 * 2 powr (- 1074)" by simp
    have "\<bar>4 * 2 powr (- 1074) :: real\<bar> \<le> 2 ^ 2" by (simp add: powr_minus_divide)
    then show "\<bar>4 * 2 powr (- 1074) :: real\<bar> < 2 powr 1024" by (rule below_overflow) simp
  qed
  then show ?thesis by simp
qed

text \<open>
  With the base font size 0 (\<open>--base-font 0px\<close>), 2em is 0px, and 0px back to em is 0
  divided by 0, which is no number. With a base font size that is infinite or no number (the
  JSON input \<open>"baseFontSize": "Infinity"\<close> or \<open>"baseFontSize": "abc"\<close>), 2em comes back as no
  number as well. The value \<open>7 * 2 powr 1021\<close> in pt overflows to an infinity in px and stays
  one. The value \<open>3 * 2 powr (- 1074)\<close> in em with the base font size 1/2 comes back as
  \<open>4 * 2 powr (- 1074)\<close>, a third more than it was.
\<close>

theorem font_round_trip_counterexample:
  "convert_and_back (Finite 2) ''em'' ''px'' (Finite 0) = NotANumber
   \<and> convert_and_back (Finite 2) ''em'' ''px'' Infinity = NotANumber
   \<and> convert_and_back (Finite 2) ''em'' ''px'' NotANumber = NotANumber
   \<and> convert_and_back (Finite (7 * 2 powr 1021)) ''pt'' ''px'' (Finite 16) = Infinity
   \<and> convert_and_back (Finite (3 * 2 powr (- 1074))) ''em'' ''px'' (Finite (1 / 2))
       = Finite (4 * 2 powr (- 1074))"
proof -
  have a: "convert_and_back (Finite 2) ''em'' ''px'' (Finite 0) = NotANumber"
    by (simp add: convert_and_back_eq toPixels_def fromPixels_def to_double_def)
  have b: "convert_and_back (Finite (7 * 2 powr 1021)) ''pt'' ''px'' (Finite 16) = Infinity"
    by (simp add: convert_and_back_eq toPixels_def fromPixels_def overflow_pt
          del: no_pow double_times.simps)
  have c: "convert_and_back (Finite (3 * 2 powr (- 1074))) ''em'' ''px'' (Finite (1 / 2))
       = Finite (4 * 2 powr (- 1074))"
    by (simp add: convert_and_back_eq toPixels_def fromPixels_def underflow_half underflow_back
          del: double_times.simps double_divide.simps)
  have d: "convert_and_back (Finite 2) ''em'' ''px'' Infinity = NotANumber"
    by (simp add: convert_and_back_eq toPixels_def fromPixels_def)
  have e: "convert_and_back (Finite 2) ''em'' ''px'' NotANumber = NotANumber"
    by (simp add: convert_and_back_eq toPixels_def fromPixels_def)
  from a b c d e show ?thesis by simp
qed

text \<open>The tolerance is needed: 3px to pt and back is 3.0000000000000004, the double next
  to 3.\<close>

lemma three_px_round_trip:
  "convert_and_back (Finite 3) ''px'' ''pt'' base = Finite (6755399441055745 / 2251799813685248)"
proof -
  have d: "to_double (3 / PT_TO_PX_RATIO) = Finite (1266954133731385 / 562949953421312)"
  proof (rule to_double_eval [of 1])
    show "2 powr of_int 1 \<le> \<bar>3 / PT_TO_PX_RATIO\<bar>" by (simp add: PT_TO_PX_RATIO_def)
    show "\<bar>3 / PT_TO_PX_RATIO\<bar> < 2 powr of_int (1 + 1)" by (simp add: PT_TO_PX_RATIO_def)
    show "- 1022 \<le> (1::int)" by simp
    have q: "3 / PT_TO_PX_RATIO / 2 powr of_int (1 - 52) = (3 * 2 ^ 103 / 6003298303284871 :: real)"
      by (simp add: PT_TO_PX_RATIO_def powr_minus_divide)
    have n: "round_even (3 * 2 ^ 103 / 6003298303284871) = 5067816534925540"
      by (simp add: round_even_def Let_def)
    show "of_int (round_even (3 / PT_TO_PX_RATIO / 2 powr of_int (1 - 52)))
        * 2 powr of_int (1 - 52) = (1266954133731385 / 562949953421312 :: real)"
      unfolding q n by (simp add: powr_minus_divide)
    show "\<bar>1266954133731385 / 562949953421312 :: real\<bar> < 2 powr 1024"
      by (rule below_overflow [of _ 2]) simp_all
  qed
  have m: "to_double (1266954133731385 / 562949953421312 * PT_TO_PX_RATIO)
             = Finite (6755399441055745 / 2251799813685248)"
  proof (rule to_double_eval [of 1])
    show "2 powr of_int 1 \<le> \<bar>1266954133731385 / 562949953421312 * PT_TO_PX_RATIO\<bar>"
      by (simp add: PT_TO_PX_RATIO_def)
    show "\<bar>1266954133731385 / 562949953421312 * PT_TO_PX_RATIO\<bar> < 2 powr of_int (1 + 1)"
      by (simp add: PT_TO_PX_RATIO_def)
    show "- 1022 \<le> (1::int)" by simp
    have q: "1266954133731385 / 562949953421312 * PT_TO_PX_RATIO / 2 powr of_int (1 - 52)
            = (1266954133731385 * 6003298303284871 / 2 ^ 50 :: real)"
      by (simp add: PT_TO_PX_RATIO_def powr_minus_divide)
    have n: "round_even (1266954133731385 * 6003298303284871 / 2 ^ 50) = 6755399441055745"
      by (simp add: round_even_def Let_def)
    show "of_int (round_even (1266954133731385 / 562949953421312 * PT_TO_PX_RATIO
          / 2 powr of_int (1 - 52))) * 2 powr of_int (1 - 52)
        = (6755399441055745 / 2251799813685248 :: real)"
      unfolding q n by (simp add: powr_minus_divide)
    show "\<bar>6755399441055745 / 2251799813685248 :: real\<bar> < 2 powr 1024"
      by (rule below_overflow [of _ 2]) simp_all
  qed
  have nz: "PT_TO_PX_RATIO \<noteq> 0" by (simp add: PT_TO_PX_RATIO_def)
  have "fromPixels (toPixels (Finite 3) ''px'' base) ''pt'' base
          = double_divide (Finite 3) (Finite PT_TO_PX_RATIO)"
    by (simp add: toPixels_def fromPixels_def)
  also have "\<dots> = Finite (1266954133731385 / 562949953421312)"
    using nz by (simp only: double_divide.simps d if_False)
  finally have there: "fromPixels (toPixels (Finite 3) ''px'' base) ''pt'' base
          = Finite (1266954133731385 / 562949953421312)" .
  have "toPixels (Finite (1266954133731385 / 562949953421312)) ''pt'' base
          = double_times (Finite (1266954133731385 / 562949953421312)) (Finite PT_TO_PX_RATIO)"
    by (simp add: toPixels_def)
  also have "\<dots> = Finite (6755399441055745 / 2251799813685248)"
    by (simp only: double_times.simps m)
  finally have again: "toPixels (Finite (1266954133731385 / 562949953421312)) ''pt'' base
          = Finite (6755399441055745 / 2251799813685248)" .
  have "fromPixels (Finite (6755399441055745 / 2251799813685248)) ''px'' base
          = Finite (6755399441055745 / 2251799813685248)"
    by (simp add: fromPixels_def)
  then show ?thesis by (simp only: convert_and_back_eq there again)
qed

section \<open>Properties of the focus order validator\<close>

text \<open>The size of the set differs from the length of the list exactly when an index is
  repeated.\<close>

lemma repeated_indices_iff: "repeated_indices xs = (\<not> distinct xs)"
  using length_remdups_eq [of xs] remdups_id_iff_distinct [of xs]
  by (simp add: repeated_indices_def)

lemma other_issues_differ:
  "''Tab order does not match expected logical sequence'' \<noteq> duplicate_issue"
  "''Header appears after main content in tab order'' \<noteq> duplicate_issue"
  "''Footer appears before main content in tab order'' \<noteq> duplicate_issue"
  by (simp_all add: duplicate_issue_def)

lemma duplicate_issue_reported:
  "(duplicate_issue \<in> set (focus_issues (validateLogicalOrder elements tabOrder expectedOrder)))
     = (\<not> distinct tabOrder)"
proof -
  have "(duplicate_issue \<in> set (focus_issues (validateLogicalOrder elements tabOrder expectedOrder)))
     = repeated_indices tabOrder"
    unfolding validateLogicalOrder_def Let_def
    using other_issues_differ by (simp del: getElementType.simps)
  then show ?thesis by (simp add: repeated_indices_iff)
qed

lemma duplicate_not_logical:
  assumes "\<not> distinct tabOrder"
  shows "\<not> logical (validateLogicalOrder elements tabOrder expectedOrder)"
proof -
  from assms have "repeated_indices tabOrder" by (simp add: repeated_indices_iff)
  then show ?thesis
    unfolding validateLogicalOrder_def Let_def by (simp del: getElementType.simps)
qed

text \<open>
  Claim C9. A tab order with a repeated index gets the duplicate-index issue and the logical
  result false; a tab order of pairwise different indices does not get that issue.
\<close>

theorem duplicate_tab_index_reported:
  "(\<not> distinct tabOrder \<longrightarrow>
      duplicate_issue \<in> set (focus_issues (validateLogicalOrder elements tabOrder expectedOrder))
      \<and> \<not> logical (validateLogicalOrder elements tabOrder expectedOrder))
   \<and> (distinct tabOrder \<longrightarrow>
      duplicate_issue \<notin> set (focus_issues (validateLogicalOrder elements tabOrder expectedOrder)))"
  using duplicate_issue_reported [of elements tabOrder expectedOrder]
    duplicate_not_logical [of tabOrder elements expectedOrder] by blast

text \<open>The tab orders 1, 2, 2 and 1, 2, 3 for header, main and footer.\<close>

theorem duplicate_tab_index_reported_witness:
  "\<not> distinct [Number 1, Number 2, Number 2]
   \<and> duplicate_issue \<in> set (focus_issues (validateLogicalOrder [''header'', ''main'', ''footer'']
        [Number 1, Number 2, Number 2] None))
   \<and> \<not> logical (validateLogicalOrder [''header'', ''main'', ''footer'']
        [Number 1, Number 2, Number 2] None)
   \<and> distinct [Number 1, Number 2, Number 3]
   \<and> duplicate_issue \<notin> set (focus_issues (validateLogicalOrder [''header'', ''main'', ''footer'']
        [Number 1, Number 2, Number 3] None))"
proof -
  have d: "\<not> distinct [Number 1, Number 2, Number 2]" by simp
  have u: "distinct [Number 1, Number 2, Number 3]" by simp
  from duplicate_tab_index_reported [of "[Number 1, Number 2, Number 2]" "[''header'', ''main'', ''footer'']" None]
    duplicate_tab_index_reported [of "[Number 1, Number 2, Number 3]" "[''header'', ''main'', ''footer'']" None]
    d u show ?thesis by blast
qed

section \<open>Properties of the skill metadata aggregator\<close>

text \<open>Every entry of the accumulator carries the category of the name it is stored under: one
  step of the \<open>reduce\<close> keeps this, and so does the whole fold.\<close>

lemma add_skill_category:
  assumes inv: "\<And>n e. acc n = Some e \<Longrightarrow> category e = category_for n"
    and got: "add_skill acc s n = Some e"
  shows "category e = category_for n"
proof (cases "n = name s")
  case True
  with got show ?thesis by (auto simp add: add_skill_def)
next
  case False
  with got have "acc n = Some e" by (simp add: add_skill_def)
  then show ?thesis by (rule inv)
qed

lemma foldl_add_skill_category:
  assumes "\<And>n e. acc n = Some e \<Longrightarrow> category e = category_for n"
    and "foldl add_skill acc sks n = Some e"
  shows "category e = category_for n"
  using assms
proof (induction sks arbitrary: acc)
  case Nil
  then show ?case by simp
next
  case (Cons s sks)
  show ?case
  proof (rule Cons.IH [of "add_skill acc s"])
    fix m d
    assume "add_skill acc s m = Some d"
    then show "category d = category_for m"
      using Cons.prems(1) add_skill_category [of acc s m d] by blast
  next
    from Cons.prems(2) show "foldl add_skill (add_skill acc s) sks n = Some e" by simp
  qed
qed

text \<open>
  Claim C2, with the fourth category the code has. The category of every entry of the
  generated configuration depends on the entry's name only: \<open>tools\<close> for a name that ends in
  a tool suffix, else \<open>deep\<close> for a name that contains \<open>-deep\<close>, else \<open>router\<close> for a name that
  starts with \<open>wcag-\<close>, and \<open>other\<close> for every remaining name.
\<close>

theorem skill_category_from_name:
  assumes "skills (generateSkillsConfig now sks) n = Some e"
  shows "(isTool n \<longrightarrow> category e = ''tools'')
    \<and> (\<not> isTool n \<and> includes_str n ''-deep'' \<longrightarrow> category e = ''deep'')
    \<and> (\<not> isTool n \<and> \<not> includes_str n ''-deep'' \<and> startsWith n ''wcag-''
          \<longrightarrow> category e = ''router'')
    \<and> (\<not> isTool n \<and> \<not> includes_str n ''-deep'' \<and> \<not> startsWith n ''wcag-''
          \<longrightarrow> category e = ''other'')"
proof -
  from assms have "foldl add_skill Map.empty sks n = Some e"
    by (simp add: generateSkillsConfig_def)
  then have "category e = category_for n"
    using foldl_add_skill_category [of Map.empty sks n e] by simp
  then show ?thesis by (simp add: category_for_def)
qed

text \<open>The four example skills, one in each category.\<close>

theorem skill_category_from_name_witness:
  "skills (generateSkillsConfig ''2026-01-01'' example_skills) ''wcag-audit-perceivable-color-contrast''
     = Some \<lparr>entry_description = ''contrast'', entry_directory = ''contrast'', category = ''tools''\<rparr>
   \<and> isTool ''wcag-audit-perceivable-color-contrast''
   \<and> skills (generateSkillsConfig ''2026-01-01'' example_skills) ''wcag-audit-operable-motion-deep''
     = Some \<lparr>entry_description = ''motion'', entry_directory = ''motion'', category = ''deep''\<rparr>
   \<and> \<not> isTool ''wcag-audit-operable-motion-deep'' \<and> includes_str ''wcag-audit-operable-motion-deep'' ''-deep''
   \<and> skills (generateSkillsConfig ''2026-01-01'' example_skills) ''wcag-audit-perceivable-color''
     = Some \<lparr>entry_description = ''color'', entry_directory = ''color'', category = ''router''\<rparr>
   \<and> \<not> isTool ''wcag-audit-perceivable-color'' \<and> \<not> includes_str ''wcag-audit-perceivable-color'' ''-deep''
   \<and> startsWith ''wcag-audit-perceivable-color'' ''wcag-''
   \<and> skills (generateSkillsConfig ''2026-01-01'' example_skills) ''helper''
     = Some \<lparr>entry_description = ''helper'', entry_directory = ''helper'', category = ''other''\<rparr>
   \<and> \<not> isTool ''helper'' \<and> \<not> includes_str ''helper'' ''-deep'' \<and> \<not> startsWith ''helper'' ''wcag-''"
proof -
  have e1: "skills (generateSkillsConfig ''2026-01-01'' example_skills) ''wcag-audit-perceivable-color-contrast''
     = Some \<lparr>entry_description = ''contrast'', entry_directory = ''contrast'', category = ''tools''\<rparr>"
    by code_simp
  have n1: "isTool ''wcag-audit-perceivable-color-contrast''" by code_simp
  have e2: "skills (generateSkillsConfig ''2026-01-01'' example_skills) ''wcag-audit-operable-motion-deep''
     = Some \<lparr>entry_description = ''motion'', entry_directory = ''motion'', category = ''deep''\<rparr>"
    by code_simp
  have n2: "\<not> isTool ''wcag-audit-operable-motion-deep'' \<and> includes_str ''wcag-audit-operable-motion-deep'' ''-deep''"
    by code_simp
  have e3: "skills (generateSkillsConfig ''2026-01-01'' example_skills) ''wcag-audit-perceivable-color''
     = Some \<lparr>entry_description = ''color'', entry_directory = ''color'', category = ''router''\<rparr>"
    by code_simp
  have n3: "\<not> isTool ''wcag-audit-perceivable-color'' \<and> \<not> includes_str ''wcag-audit-perceivable-color'' ''-deep''
      \<and> startsWith ''wcag-audit-perceivable-color'' ''wcag-''"
    by code_simp
  have e4: "skills (generateSkillsConfig ''2026-01-01'' example_skills) ''helper''
     = Some \<lparr>entry_description = ''helper'', entry_directory = ''helper'', category = ''other''\<rparr>"
    by code_simp
  have n4: "\<not> isTool ''helper'' \<and> \<not> includes_str ''helper'' ''-deep''
      \<and> \<not> startsWith ''helper'' ''wcag-''"
    by code_simp
  from skill_category_from_name [OF e1] skill_category_from_name [OF e2]
    skill_category_from_name [OF e3] skill_category_from_name [OF e4]
  show ?thesis using e1 e2 e3 e4 n1 n2 n3 n4 by simp
qed

text \<open>
  A name without tool suffix, without \<open>-deep\<close> and without the prefix \<open>wcag-\<close> is not given the
  category \<open>router\<close>: the skill \<open>helper\<close> is written with the category \<open>other\<close>.
\<close>

theorem skill_category_default_counterexample:
  "\<not> isTool ''helper'' \<and> \<not> includes_str ''helper'' ''-deep''
   \<and> map_option category (skills (generateSkillsConfig ''2026-01-01''
         [\<lparr>name = ''helper'', description = ''helper'', directory = ''helper''\<rparr>]) ''helper'')
       = Some ''other''
   \<and> map_option category (skills (generateSkillsConfig ''2026-01-01''
         [\<lparr>name = ''helper'', description = ''helper'', directory = ''helper''\<rparr>]) ''helper'')
       \<noteq> Some ''router''"
  by code_simp

section \<open>Properties of the contrast ratio calculator\<close>

text \<open>Comparing the ratio rounded to two decimals with a threshold \<open>t\<close> of at most two decimals
  is comparing the ratio itself with \<open>t - 0.005\<close>.\<close>

lemma rounded_ge_iff:
  assumes "real_of_int k = t * 100"
  shows "js_ge (round2 (Fin x)) t = (t - 0.005 \<le> x)"
proof -
  have "js_ge (round2 (Fin x)) t = (t * 100 \<le> of_int \<lfloor>x * 100 + 1 / 2\<rfloor>)"
    by (simp add: js_round_def field_simps)
  also have "\<dots> = (k \<le> \<lfloor>x * 100 + 1 / 2\<rfloor>)"
    using assms by (metis of_int_le_iff)
  also have "\<dots> = (of_int k \<le> x * 100 + 1 / 2)"
    by (rule le_floor_iff)
  also have "\<dots> = (t - 0.005 \<le> x)"
    using assms by (simp add: field_simps)
  finally show ?thesis .
qed

text \<open>The levels reported for a finite ratio, in terms of the ratio before rounding.\<close>

lemma levels_of_finite_ratio:
  "checkCompliance (Fin x) ''text''
     = TextLevels (4.495 \<le> x) (2.995 \<le> x) (6.995 \<le> x) (4.495 \<le> x)
   \<and> checkCompliance (Fin x) ''non-text'' = NonText (2.995 \<le> x) (2.995 \<le> x)"
proof -
  have a: "js_ge (round2 (Fin x)) 4.5 = (4.495 \<le> x)"
    using rounded_ge_iff [of 450 "4.5" x] by simp
  have b: "js_ge (round2 (Fin x)) 3.0 = (2.995 \<le> x)"
    using rounded_ge_iff [of 300 "3.0" x] by simp
  have c: "js_ge (round2 (Fin x)) 7.0 = (6.995 \<le> x)"
    using rounded_ge_iff [of 700 "7.0" x] by simp
  show ?thesis
    unfolding checkCompliance_def Let_def using a b c by simp
qed

text \<open>The linear value of a channel that is not negative is not negative.\<close>

lemma toLinear_nonneg: "0 \<le> v \<Longrightarrow> 0 \<le> toLinear v"
  by (simp add: toLinear_def Let_def)

text \<open>Bounds on a power with exponent 2.4 = 12/5 from a comparison of the fifth power of the
  bound with the twelfth power of the base, which is rational arithmetic.\<close>

lemma powr_12_5_lower:
  fixes x lo :: real
  assumes "0 < x" and "0 \<le> lo" and "lo ^ 5 \<le> x ^ 12"
  shows "lo \<le> x powr (12 / 5)"
proof (rule ccontr)
  assume "\<not> lo \<le> x powr (12 / 5)"
  then have "x powr (12 / 5) < lo" by simp
  then have "(x powr (12 / 5)) ^ 5 < lo ^ 5"
    by (intro power_strict_mono) simp_all
  moreover have "(x powr (12 / 5)) ^ 5 = x ^ 12"
  proof -
    have "(x powr (12 / 5)) ^ 5 = (x powr (12 / 5)) powr (real 5)"
      using assms(1) by (simp add: powr_realpow)
    also have "\<dots> = x powr (real 12)" by (simp add: powr_powr)
    also have "\<dots> = x ^ 12" using assms(1) by (rule powr_realpow)
    finally show ?thesis .
  qed
  ultimately show False using assms(3) by simp
qed

lemma powr_12_5_upper:
  fixes x hi :: real
  assumes "0 < x" and "0 \<le> hi" and "x ^ 12 < hi ^ 5"
  shows "x powr (12 / 5) < hi"
proof (rule ccontr)
  assume "\<not> x powr (12 / 5) < hi"
  then have "hi \<le> x powr (12 / 5)" by simp
  then have "hi ^ 5 \<le> (x powr (12 / 5)) ^ 5"
    using assms(2) by (intro power_mono) simp_all
  moreover have "(x powr (12 / 5)) ^ 5 = x ^ 12"
  proof -
    have "(x powr (12 / 5)) ^ 5 = (x powr (12 / 5)) powr (real 5)"
      using assms(1) by (simp add: powr_realpow)
    also have "\<dots> = x powr (real 12)" by (simp add: powr_powr)
    also have "\<dots> = x ^ 12" using assms(1) by (rule powr_realpow)
    finally show ?thesis .
  qed
  ultimately show False using assms(3) by simp
qed

text \<open>The linear value of the channel 234 (hexadecimal \<open>ea\<close>) lies between 0.82197 and 0.82314.\<close>

lemma toLinear_234: "17475 / 21260 \<le> toLinear 234 \<and> toLinear 234 < 17500 / 21260"
proof -
  have v: "toLinear 234 = (3307 / 3587) powr (12 / 5)"
    by (simp add: toLinear_def Let_def)
  have lo: "(17475 / 21260 :: real) \<le> (3307 / 3587) powr (12 / 5)"
    by (rule powr_12_5_lower) (simp_all add: power_divide field_simps)
  have hi: "(3307 / 3587 :: real) powr (12 / 5) < 17500 / 21260"
    by (rule powr_12_5_upper) (simp_all add: power_divide field_simps)
  from v lo hi show ?thesis by simp
qed


text \<open>
  Claim C1, with the thresholds the code applies. \<open>checkCompliance\<close> compares the ratio rounded
  to two decimals, so for type text AA normal passes exactly when the ratio is at least 4.495,
  AA large at least 2.995, AAA normal at least 6.995 and AAA large at least 4.495; for type
  non-text AA and AAA both pass exactly when the ratio is at least 2.995.
\<close>

theorem compliance_thresholds_on_rounded_ratio:
  "checkCompliance (Fin x) ''text''
     = TextLevels (4.495 \<le> x) (2.995 \<le> x) (6.995 \<le> x) (4.495 \<le> x)
   \<and> checkCompliance (Fin x) ''non-text'' = NonText (2.995 \<le> x) (2.995 \<le> x)"
  by (rule levels_of_finite_ratio)

text \<open>Luminance of the colours used below: black is 0, white is 1.\<close>

lemma toLinear_0: "toLinear 0 = 0"
  by (simp add: toLinear_def)

lemma toLinear_255: "toLinear 255 = 1"
  by (simp add: toLinear_def)

lemma luminance_red_234:
  "getRelativeLuminance \<lparr>r = Number 234, g = Number 0, b = Number 0\<rparr> = Fin (0.2126 * toLinear 234)"
  by (simp add: getRelativeLuminance_def toLinear_0)

lemma luminance_black:
  "getRelativeLuminance \<lparr>r = Number 0, g = Number 0, b = Number 0\<rparr> = Fin 0"
  by (simp add: getRelativeLuminance_def toLinear_0)

lemma luminance_white:
  "getRelativeLuminance \<lparr>r = Number 255, g = Number 255, b = Number 255\<rparr> = Fin 1"
  by (simp add: getRelativeLuminance_def toLinear_255)

text \<open>The ratio of a colour of luminance \<open>l\<close> against black is \<open>(l + 0.05) / 0.05\<close>.\<close>

lemma ratio_over_black:
  assumes "0 \<le> l" and "getRelativeLuminance c1 = Fin l" and "getRelativeLuminance c2 = Fin 0"
  shows "getContrastRatio c1 c2 = Fin (20 * l + 1)"
proof -
  from assms(1) have m: "max l 0 = l" and n: "min l 0 = 0" by simp_all
  show ?thesis
    unfolding getContrastRatio_def assms(2) assms(3)
    by (simp add: Let_def m n js_div_def)
qed

lemma ratio_red_234_black:
  "getContrastRatio \<lparr>r = Number 234, g = Number 0, b = Number 0\<rparr>
     \<lparr>r = Number 0, g = Number 0, b = Number 0\<rparr> = Fin (20 * (0.2126 * toLinear 234) + 1)"
proof -
  have "0 \<le> toLinear 234" by (rule toLinear_nonneg) simp
  then have "0 \<le> 0.2126 * toLinear 234" by simp
  then show ?thesis using luminance_red_234 luminance_black by (rule ratio_over_black)
qed

text \<open>
  The red \<open>#ea0000\<close> on black \<open>#000000\<close> has a contrast ratio between 4.495 and 4.5: it is
  below 4.5, and AA normal (and AAA large) is reported as passed.
\<close>

theorem rounding_passes_below_threshold_counterexample:
  "parseColor ''#ea0000'' = Inr (Some \<lparr>r = Number 234, g = Number 0, b = Number 0\<rparr>)
   \<and> parseColor ''#000000'' = Inr (Some \<lparr>r = Number 0, g = Number 0, b = Number 0\<rparr>)
   \<and> checkCompliance
        (getContrastRatio \<lparr>r = Number 234, g = Number 0, b = Number 0\<rparr>
           \<lparr>r = Number 0, g = Number 0, b = Number 0\<rparr>) ''text''
       = TextLevels True True False True
   \<and> \<not> js_ge (getContrastRatio \<lparr>r = Number 234, g = Number 0, b = Number 0\<rparr>
           \<lparr>r = Number 0, g = Number 0, b = Number 0\<rparr>) 4.5"
proof -
  have p1: "parseColor ''#ea0000'' = Inr (Some \<lparr>r = Number 234, g = Number 0, b = Number 0\<rparr>)"
    by code_simp
  have p2: "parseColor ''#000000'' = Inr (Some \<lparr>r = Number 0, g = Number 0, b = Number 0\<rparr>)"
    by code_simp
  define x where "x = 20 * (0.2126 * toLinear 234) + 1"
  have lo: "4.495 \<le> x" and hi: "x < 4.5"
    using toLinear_234 by (simp_all add: x_def)
  have ratio: "getContrastRatio \<lparr>r = Number 234, g = Number 0, b = Number 0\<rparr>
           \<lparr>r = Number 0, g = Number 0, b = Number 0\<rparr> = Fin x"
    by (simp add: ratio_red_234_black x_def)
  have "checkCompliance (Fin x) ''text'' = TextLevels True True False True"
    using levels_of_finite_ratio [of x] lo hi by simp
  moreover have "\<not> js_ge (Fin x) 4.5" using hi by simp
  ultimately show ?thesis using p1 p2 ratio by simp
qed

text \<open>The luminance of a colour of the data model is a number that is not negative.\<close>

lemma luminance_nonneg:
  assumes "valid_color c"
  shows "\<exists>l. getRelativeLuminance c = Fin l \<and> 0 \<le> l"
proof -
  from assms obtain x y z where c: "r c = Number x" "g c = Number y" "b c = Number z"
    and pos: "0 \<le> x" "0 \<le> y" "0 \<le> z"
    unfolding valid_color_def
    by (cases "r c"; cases "g c"; cases "b c") simp_all
  have "0 \<le> toLinear (of_int x)" "0 \<le> toLinear (of_int y)" "0 \<le> toLinear (of_int z)"
    using pos by (simp_all add: toLinear_nonneg)
  then have "0 \<le> 0.2126 * toLinear (of_int x) + 0.7152 * toLinear (of_int y)
               + 0.0722 * toLinear (of_int z)" by simp
  then show ?thesis by (simp add: getRelativeLuminance_def c)
qed

text \<open>The ratio of two colours of the data model is a finite number of at least 1, so the
  levels of claim C1 cover every pair of such colours.\<close>

lemma ratio_of_valid_colors_finite:
  assumes "valid_color c1" and "valid_color c2"
  shows "\<exists>x. getContrastRatio c1 c2 = Fin x \<and> 1 \<le> x"
proof -
  from luminance_nonneg [OF assms(1)] obtain l1
    where l1: "getRelativeLuminance c1 = Fin l1" "0 \<le> l1" by blast
  from luminance_nonneg [OF assms(2)] obtain l2
    where l2: "getRelativeLuminance c2 = Fin l2" "0 \<le> l2" by blast
  have pos: "0 < min l1 l2 + 0.05" using l1(2) l2(2) by simp
  have "min l1 l2 + 0.05 \<le> max l1 l2 + 0.05" by simp
  with pos have "1 \<le> (max l1 l2 + 0.05) / (min l1 l2 + 0.05)"
    by (simp add: le_divide_eq)
  moreover have "getContrastRatio c1 c2 = Fin ((max l1 l2 + 0.05) / (min l1 l2 + 0.05))"
    using pos by (simp add: getContrastRatio_def l1(1) l2(1) js_div_def Let_def)
  ultimately show ?thesis by blast
qed

text \<open>
  Claim C5. The contrast ratio of a colour (channels from 0 to 255) with itself is exactly 1,
  and the ratio of pure black against pure white is 21.
\<close>

theorem contrast_identical_and_black_white:
  "(valid_color c \<longrightarrow> getContrastRatio c c = Fin 1)
   \<and> getContrastRatio \<lparr>r = Number 0, g = Number 0, b = Number 0\<rparr>
         \<lparr>r = Number 255, g = Number 255, b = Number 255\<rparr> = Fin 21"
proof -
  have same: "getContrastRatio c c = Fin 1" if "valid_color c"
  proof -
    from luminance_nonneg [OF that] obtain l where l: "getRelativeLuminance c = Fin l" "0 \<le> l"
      by blast
    then show ?thesis by (simp add: getContrastRatio_def js_div_def Let_def)
  qed
  have bw: "getContrastRatio \<lparr>r = Number 0, g = Number 0, b = Number 0\<rparr>
         \<lparr>r = Number 255, g = Number 255, b = Number 255\<rparr> = Fin 21"
    unfolding getContrastRatio_def luminance_black luminance_white
    by (simp add: js_div_def Let_def)
  from same bw show ?thesis by blast
qed

text \<open>The colour \<open>rgb(18, 52, 86)\<close> against itself.\<close>

theorem contrast_identical_and_black_white_witness:
  "valid_color \<lparr>r = Number 18, g = Number 52, b = Number 86\<rparr>
   \<and> getContrastRatio \<lparr>r = Number 18, g = Number 52, b = Number 86\<rparr>
         \<lparr>r = Number 18, g = Number 52, b = Number 86\<rparr> = Fin 1"
proof -
  have v: "valid_color \<lparr>r = Number 18, g = Number 52, b = Number 86\<rparr>"
    by (simp add: valid_color_def)
  with contrast_identical_and_black_white [of "\<lparr>r = Number 18, g = Number 52, b = Number 86\<rparr>"]
  show ?thesis by blast
qed

section \<open>Properties of the colour blindness simulator\<close>

text \<open>A clamped value scaled by 255 and rounded is an integer from 0 to 255.\<close>

lemma clamp01_range: "0 \<le> clamp01 x \<and> clamp01 x \<le> 1"
  by (simp add: clamp01_def)

lemma round_clamped_channel: "valid_channel (Number (js_round (clamp01 x * 255)))"
proof -
  have lo: "0 \<le> clamp01 x * 255" and hi: "clamp01 x * 255 \<le> 255"
    using clamp01_range [of x] by simp_all
  from lo have "(0::int) \<le> \<lfloor>clamp01 x * 255 + 1 / 2\<rfloor>" by simp
  moreover from hi have "clamp01 x * 255 + 1 / 2 < of_int 256" by simp
  then have "\<lfloor>clamp01 x * 255 + 1 / 2\<rfloor> < 256" by (simp only: floor_less_iff)
  ultimately show ?thesis by (simp add: js_round_def)
qed

lemma lmsToRgb_valid: "valid_color (lmsToRgb L M S)"
  by (simp add: lmsToRgb_def valid_color_def round_clamped_channel split: prod.splits
        del: valid_channel.simps)

text \<open>The channels of \<open>lmsToRgb\<close>, written out: clamped to [0, 1], scaled by 255, rounded.\<close>

lemma lmsToRgb_channels:
  assumes "lmsToLinearRgb L M S = (r0, g0, b0)"
  shows "lmsToRgb L M S
           = \<lparr>r = Number \<lfloor>max 0 (min 1 r0) * 255 + 1 / 2\<rfloor>,
              g = Number \<lfloor>max 0 (min 1 g0) * 255 + 1 / 2\<rfloor>,
              b = Number \<lfloor>max 0 (min 1 b0) * 255 + 1 / 2\<rfloor>\<rparr>"
  by (simp add: lmsToRgb_def assms clamp01_def js_round_def)

lemma known_type_has_matrix:
  assumes "type \<in> {''protanopia'', ''deuteranopia'', ''tritanopia''}"
  shows "\<exists>m. TRANSFORMATION_MATRICES type = Matrix m"
proof -
  from assms consider "type = ''protanopia''" | "type = ''deuteranopia''" | "type = ''tritanopia''"
    by auto
  then show ?thesis by cases (simp_all add: TRANSFORMATION_MATRICES_def)
qed

text \<open>
  Claim C8. For a colour of the data model (channels from 0 to 255) and each of the three
  deficiency types, the simulation returns a colour. With \<open>r0\<close>, \<open>g0\<close>, \<open>b0\<close> the channels that
  the LMS-to-RGB matrix gives for the transformed colour, every channel of the result is the
  channel clamped to [0, 1], scaled by 255 and rounded to the nearest integer (a tie going
  up), and therefore an integer from 0 to 255.
\<close>

theorem simulated_channels_clamped_scaled_rounded:
  assumes "type \<in> {''protanopia'', ''deuteranopia'', ''tritanopia''}" and "valid_color c"
  shows "\<exists>m x y z r0 g0 b0 sc.
           TRANSFORMATION_MATRICES type = Matrix m
         \<and> r c = Number x \<and> g c = Number y \<and> b c = Number z
         \<and> (case applyMatrix m (rgbToLms (of_int x) (of_int y) (of_int z)) of
               (L, M, S) \<Rightarrow> lmsToLinearRgb L M S) = (r0, g0, b0)
         \<and> simulateColorBlindness c type = Inr sc
         \<and> r sc = Number \<lfloor>max 0 (min 1 r0) * 255 + 1 / 2\<rfloor>
         \<and> g sc = Number \<lfloor>max 0 (min 1 g0) * 255 + 1 / 2\<rfloor>
         \<and> b sc = Number \<lfloor>max 0 (min 1 b0) * 255 + 1 / 2\<rfloor>
         \<and> valid_color sc"
proof -
  from known_type_has_matrix [OF assms(1)] obtain m where m: "TRANSFORMATION_MATRICES type = Matrix m"
    by blast
  from assms(2) obtain x y z where c: "r c = Number x" "g c = Number y" "b c = Number z"
    unfolding valid_color_def
    by (cases "r c"; cases "g c"; cases "b c") simp_all
  obtain L M S where lms: "applyMatrix m (rgbToLms (of_int x) (of_int y) (of_int z)) = (L, M, S)"
    by (cases "applyMatrix m (rgbToLms (of_int x) (of_int y) (of_int z))") blast
  obtain r0 g0 b0 where lin: "lmsToLinearRgb L M S = (r0, g0, b0)"
    by (cases "lmsToLinearRgb L M S") blast
  have run: "simulateColorBlindness c type = Inr (lmsToRgb L M S)"
    unfolding simulateColorBlindness_def m c by (simp add: lms)
  have ch: "lmsToRgb L M S
           = \<lparr>r = Number \<lfloor>max 0 (min 1 r0) * 255 + 1 / 2\<rfloor>,
              g = Number \<lfloor>max 0 (min 1 g0) * 255 + 1 / 2\<rfloor>,
              b = Number \<lfloor>max 0 (min 1 b0) * 255 + 1 / 2\<rfloor>\<rparr>"
    using lin by (rule lmsToRgb_channels)
  have "r (lmsToRgb L M S) = Number \<lfloor>max 0 (min 1 r0) * 255 + 1 / 2\<rfloor>"
    and "g (lmsToRgb L M S) = Number \<lfloor>max 0 (min 1 g0) * 255 + 1 / 2\<rfloor>"
    and "b (lmsToRgb L M S) = Number \<lfloor>max 0 (min 1 b0) * 255 + 1 / 2\<rfloor>"
    by (simp_all only: ch color.simps)
  moreover have "(case applyMatrix m (rgbToLms (of_int x) (of_int y) (of_int z)) of
               (L, M, S) \<Rightarrow> lmsToLinearRgb L M S) = (r0, g0, b0)"
    by (simp add: lms lin)
  moreover have "valid_color (lmsToRgb L M S)" by (rule lmsToRgb_valid)
  ultimately show ?thesis using m c run by blast
qed

text \<open>Pure red under protanopia: the channels before clamping are about -0.46, 0.405 and
  0.544, and the simulated colour is \<open>rgb(0, 103, 139)\<close>.\<close>

theorem simulated_channels_clamped_scaled_rounded_witness:
  "''protanopia'' \<in> {''protanopia'', ''deuteranopia'', ''tritanopia''}
   \<and> valid_color \<lparr>r = Number 255, g = Number 0, b = Number 0\<rparr>
   \<and> simulateColorBlindness \<lparr>r = Number 255, g = Number 0, b = Number 0\<rparr> ''protanopia''
       = Inr \<lparr>r = Number 0, g = Number 103, b = Number 139\<rparr>
   \<and> valid_color \<lparr>r = Number 0, g = Number 103, b = Number 139\<rparr>"
proof -
  have t: "''protanopia'' \<in> {''protanopia'', ''deuteranopia'', ''tritanopia''}" by simp
  have v: "valid_color \<lparr>r = Number 255, g = Number 0, b = Number 0\<rparr>"
    by (simp add: valid_color_def)
  have e: "simulateColorBlindness \<lparr>r = Number 255, g = Number 0, b = Number 0\<rparr> ''protanopia''
       = Inr \<lparr>r = Number 0, g = Number 103, b = Number 139\<rparr>"
    by code_simp
  from simulated_channels_clamped_scaled_rounded [OF t v] obtain sc
    where "simulateColorBlindness \<lparr>r = Number 255, g = Number 0, b = Number 0\<rparr> ''protanopia'' = Inr sc"
      and "valid_color sc" by blast
  with e have "valid_color \<lparr>r = Number 0, g = Number 103, b = Number 139\<rparr>" by simp
  with t v e show ?thesis by simp
qed

section \<open>Rejection of malformed input by the two colour tools\<close>

text \<open>
  Claim C3 at the colour string \<open>#ggg\<close>, which has the shape of a 3-digit hexadecimal colour
  and no hexadecimal digit. \<open>parseColor\<close> returns a colour whose channels are \<open>NaN\<close>; both
  tools go on, print a result computed from it (a ratio \<open>NaN\<close> with every level failed, a
  simulated colour of \<open>NaN\<close> channels) and end with exit code 0.
\<close>

theorem malformed_hex_color_is_accepted:
  "contrast_main (\<lambda>j. None) [''--foreground'', ''#ggg'', ''--background'', ''#ffffff'']
     = Printed \<lparr>contrastRatio = NaNr, levels = TextLevels False False False False,
         foreground = \<lparr>r = NaN, g = NaN, b = NaN\<rparr>,
         background = \<lparr>r = Number 255, g = Number 255, b = Number 255\<rparr>\<rparr>
   \<and> exit_code (contrast_main (\<lambda>j. None)
         [''--foreground'', ''#ggg'', ''--background'', ''#ffffff'']) = 0
   \<and> sim_main (\<lambda>j. None) [''--color'', ''#ggg'', ''--type'', ''protanopia'']
     = Printed \<lparr>original = \<lparr>r = NaN, g = NaN, b = NaN\<rparr>,
         simulated = \<lparr>r = NaN, g = NaN, b = NaN\<rparr>, sim_type = ''protanopia''\<rparr>
   \<and> exit_code (sim_main (\<lambda>j. None) [''--color'', ''#ggg'', ''--type'', ''protanopia'']) = 0"
proof -
  have a: "contrast_main (\<lambda>j. None) [''--foreground'', ''#ggg'', ''--background'', ''#ffffff'']
     = Printed \<lparr>contrastRatio = NaNr, levels = TextLevels False False False False,
         foreground = \<lparr>r = NaN, g = NaN, b = NaN\<rparr>,
         background = \<lparr>r = Number 255, g = Number 255, b = Number 255\<rparr>\<rparr>"
    by code_simp
  have b: "sim_main (\<lambda>j. None) [''--color'', ''#ggg'', ''--type'', ''protanopia'']
     = Printed \<lparr>original = \<lparr>r = NaN, g = NaN, b = NaN\<rparr>,
         simulated = \<lparr>r = NaN, g = NaN, b = NaN\<rparr>, sim_type = ''protanopia''\<rparr>"
    by code_simp
  show ?thesis by (simp add: a b)
qed

text \<open>
  The inputs the tools do reject. The contrast calculator exits with code 1 when
  \<open>parseColor\<close> returns \<open>null\<close> for either colour, on \<open>hsl(...)\<close>, and on a colour option without
  value; the simulator exits with code 1 on every type other than the three deficiency types.
\<close>

lemma contrast_rejects_null_color:
  assumes "contrast_options json_parse (parseArgs args) = Inr opts"
    and "parseColor_arg (or_opt (opts ''foreground'') (opts ''fg'')) \<in> {Inr None, Inl HslUnsupported, Inl Uncaught}
         \<or> parseColor_arg (or_opt (opts ''background'') (opts ''bg'')) \<in> {Inr None, Inl HslUnsupported, Inl Uncaught}"
  shows "\<exists>f. contrast_main json_parse args = Exit 1 f"
  using assms
  by (auto simp add: contrast_main_def split: sum.splits option.splits)

lemma sim_rejects_unknown_type:
  assumes "type \<notin> {''protanopia'', ''deuteranopia'', ''tritanopia''}"
  shows "simulateColorBlindness c type
           = Inl (if type \<in> set inherited_names then NotAMatrix else UnknownType)"
  using assms
  by (simp add: simulateColorBlindness_def TRANSFORMATION_MATRICES_def)

lemma sim_main_rejects_unknown_type:
  assumes "sim_options json_parse (parseArgs args) = Inr opts"
    and "opts ''type'' = Some (Str type)"
    and "type \<notin> {''protanopia'', ''deuteranopia'', ''tritanopia''}"
  shows "\<exists>f. sim_main json_parse args = Exit 1 f"
  using assms(1,2)
  by (simp add: sim_main_def Let_def sim_rejects_unknown_type [OF assms(3)]
        split: sum.splits option.splits)

end
